theory Spec2Isabelle
  imports Main "HOL-Library.Sublist" "HOL-Library.Multiset"
begin

section \<open>The record handler of src/record/record-handler.ts\<close>

text \<open>
  The handler is a class whose methods run callbacks handed to its collaborators (cache,
  storage, permission handler, record request, record transition). The embedding keeps the
  class as a record \<open>recordHandler\<close> (the \<open>this\<close> of every method), returns the
  updated handler from every method, and lists what a method does to the outside world as
  a trace of \<open>effect\<close>s, in the order the calls are made. What a collaborator answers is
  not decided in this file: it is read from the \<open>services\<close> field, so every theorem holds
  for every answer. In the trace of one method a callback handed to a collaborator
  follows the call of the collaborator and runs on the handler as it is then; cache and
  storage operations are suspension points, so the two callbacks of a write that goes to
  both layers run after both calls, in either order. What changes when the handler does
  other work before a callback runs is the subject of the sequences of calls below. An
  exception ends the method that raises it: it is the last effect of the trace. The
  \<open>metaData\<close> argument, which the handler only passes through, is left out.
\<close>

subsection \<open>Constants, messages and sockets\<close>

datatype TOPIC = RECORD | RECORD_SUBSCRIPTIONS

text \<open>The members of \<open>RECORD_ACTIONS\<close> that the handler names, and \<open>RECORD_LOAD_ERROR\<close>,
  the event a failed record request reports.\<close>

datatype RA =
    SUBSCRIBECREATEANDREAD | CREATEANDUPDATE | CREATEANDPATCH | READ | HEAD
  | SUBSCRIBEANDHEAD | UPDATE | PATCH | ERASE | DELETE | DELETE_SUCCESS | UNSUBSCRIBE
  | LISTEN | UNLISTEN | LISTEN_ACCEPT | LISTEN_REJECT
  | CREATEANDPATCH_WITH_WRITE_ACK | CREATEANDUPDATE_WITH_WRITE_ACK
  | PATCH_WITH_WRITE_ACK | UPDATE_WITH_WRITE_ACK | ERASE_WITH_WRITE_ACK
  | CREATE | SUBSCRIBE | READ_RESPONSE | HEAD_RESPONSE | WRITE_ACKNOWLEDGEMENT
  | RECORD_NOT_FOUND | RECORD_LOAD_ERROR | RECORD_CREATE_ERROR
  | INVALID_PATCH_ON_HOTPATH | MESSAGE_DENIED | MESSAGE_PERMISSION_ERROR

text \<open>Structured values as the wire carries them; \<open>JError\<close> is an Error object placed in
  a payload, \<open>JUndefined\<close> an array slot holding \<open>undefined\<close>.\<close>

datatype jsdata =
    JUndefined | JNull | JBool bool | JNumber int | JString string
  | JArray "jsdata list" | JObject "(string \<times> jsdata) list" | JError string

datatype jsError = Error string

fun toString :: "jsError \<Rightarrow> string" where
  "toString (Error m) = (if m = [] then ''Error'' else ''Error: '' @ m)"

text \<open>A message: the optional fields of the envelope are \<open>None\<close> when undefined.
  \<open>isWriteAck\<close> is only ever tested for truth, so undefined is \<open>False\<close>.\<close>

record message =
  topic :: TOPIC
  action :: RA
  name :: string
  version :: "int option"
  path :: "string option"
  data :: "string option"
  parsedData :: "jsdata option"
  isWriteAck :: bool
  correlationId :: "string option"
  originalAction :: "RA option"

text \<open>The object literal \<open>{ topic: TOPIC.RECORD, action, name }\<close>, every other field
  undefined.\<close>

definition recordMessage :: "RA \<Rightarrow> string \<Rightarrow> message" where
  "recordMessage a n =
     \<lparr>topic = RECORD, action = a, name = n, version = None, path = None, data = None,
      parsedData = None, isWriteAck = False, correlationId = None, originalAction = None\<rparr>"

text \<open>A socket wrapper; \<open>uuid\<close> stands for the identity of the object.\<close>

record socketWrapper =
  uuid :: nat
  user :: string
  authData :: jsdata
  isRemote :: bool

text \<open>\<open>StorageRecord = { _v, _d }\<close>.\<close>

record storageRecord =
  rec_v :: int
  rec_d :: "jsdata option"

subsection \<open>Effects\<close>

text \<open>The exception raised by calling a method that a value does not have.\<close>

datatype jsException = TypeError

text \<open>
  One constructor per call the handler makes on a collaborator, and \<open>Throw\<close> for an
  exception that leaves the handler. Record transitions are objects of a class outside
  this file; the handler only creates them, keeps them in its table and calls their
  methods, so a transition is a handle (a number, fresh at each \<open>new RecordTransition\<close>).
\<close>

datatype effect =
    SendMessage socketWrapper message bool
  | LoggerError RA string
  | CanPerformAction string message jsdata socketWrapper
  | CacheSet string storageRecord
  | StorageSet string storageRecord
  | Subscribe message socketWrapper
  | Unsubscribe message socketWrapper bool
  | SendToSubscribers string message bool socketWrapper
  | NewRecordTransition string nat
  | TransitionAdd nat socketWrapper message "bool option"
  | TransitionSendVersionExists nat message "int option" socketWrapper
  | TransitionDestroy nat
  | NewRecordDeletion socketWrapper message
  | ListenerHandle socketWrapper message
  | LoggerErrorUnknownAction "RA option"
  | Throw jsException

subsection \<open>Configuration and collaborators\<close>

record deepstreamConfig =
  storageHotPathPrefixes :: "string list"
  storageExclusionPrefixes :: "string list"

text \<open>What a record request (\<open>./record-request\<close>, outside this file) reports: the record
  or null through \<open>onComplete\<close>, or an event and an error message through \<open>onError\<close>.\<close>

datatype requestResult = Loaded "storageRecord option" | LoadFailed RA string

text \<open>
  The answers of the collaborators:
  \<^item> \<open>canPerformAction\<close>: the \<open>(error, canPerformAction)\<close> the permission handler hands to
    its callback;
  \<^item> \<open>cacheSet\<close>, \<open>storageSet\<close>: the error (or null) handed to the callback of \<open>set\<close>;
    \<open>storageRepliesFirst\<close> says which of the two callbacks of a parallel write runs first;
  \<^item> \<open>recordRequestResult\<close>: what the record request reports for a name;
  \<^item> \<open>parseData\<close>: the message after \<open>socketWrapper.parseData(message)\<close> has filled in
    \<open>parsedData\<close>;
  \<^item> \<open>hasVersion\<close>: \<open>transition.hasVersion(version)\<close>;
  \<^item> \<open>getLocalSubscribers\<close>: the subscription registry's local subscribers of a name;
  \<^item> \<open>recordDeletionSucceeds\<close>: whether a \<open>RecordDeletion\<close> calls its success callback.
\<close>

record deepstreamServices =
  canPerformAction :: "string \<Rightarrow> message \<Rightarrow> jsdata \<Rightarrow> socketWrapper \<Rightarrow> jsError option \<times> bool"
  cacheSet :: "string \<Rightarrow> storageRecord \<Rightarrow> jsError option"
  storageSet :: "string \<Rightarrow> storageRecord \<Rightarrow> jsError option"
  storageRepliesFirst :: bool
  recordRequestResult :: "string \<Rightarrow> requestResult"
  parseData :: "message \<Rightarrow> message"
  hasVersion :: "nat \<Rightarrow> int option \<Rightarrow> bool"
  getLocalSubscribers :: "string \<Rightarrow> socketWrapper list"
  recordDeletionSucceeds :: "message \<Rightarrow> bool"

text \<open>The handler: \<open>transitions\<close> and \<open>recordRequestsInProgress\<close> hold the own properties
  of the two tables, which the constructor creates as \<open>{}\<close>; \<open>transitionsCreated\<close> numbers
  the transitions built so far and gives the next handle. Callbacks queued by the
  stability gate are values of an arbitrary type \<open>'cb\<close>.\<close>

record 'cb recordHandler =
  config :: deepstreamConfig
  services :: deepstreamServices
  transitions :: "string \<rightharpoonup> nat"
  recordRequestsInProgress :: "string \<rightharpoonup> 'cb list"
  transitionsCreated :: nat

type_synonym 'cb handlerMethod = "'cb recordHandler \<Rightarrow> 'cb recordHandler \<times> effect list"

subsection \<open>Objects as tables\<close>

text \<open>
  Both tables are plain objects, so \<open>table[name]\<close> finds the own property of that name
  and, when there is none, the property the object inherits from \<open>Object.prototype\<close>.
  These are the inherited properties, each with the value of its \<open>length\<close>: the number
  of parameters of the method, and no length for \<open>__proto__\<close>, whose value is the
  prototype object. Every one of these values is truthy, and none has a method \<open>push\<close>,
  \<open>splice\<close>, \<open>hasVersion\<close>, \<open>add\<close> or \<open>destroy\<close>.
\<close>

definition objectPrototype :: "(string \<times> nat option) list" where
  "objectPrototype =
     [(''constructor'', Some 1), (''__defineGetter__'', Some 2), (''__defineSetter__'', Some 2),
      (''hasOwnProperty'', Some 1), (''__lookupGetter__'', Some 1), (''__lookupSetter__'', Some 1),
      (''isPrototypeOf'', Some 1), (''propertyIsEnumerable'', Some 1), (''toString'', Some 0),
      (''valueOf'', Some 0), (''__proto__'', None), (''toLocaleString'', Some 0)]"

definition inherited :: "string \<Rightarrow> nat option option" where
  "inherited n = map_of objectPrototype n"

text \<open>What \<open>table[name]\<close> evaluates to: an own property, an inherited one (with its
  length), or undefined. Assignment to \<open>table[name]\<close> and \<open>delete table[name]\<close> act on
  the own properties.\<close>

datatype 'a property = OwnProperty 'a | InheritedProperty "nat option" | NoProperty

definition getProperty :: "(string \<rightharpoonup> 'a) \<Rightarrow> string \<Rightarrow> 'a property" where
  "getProperty table n =
     (case table n of
        Some v \<Rightarrow> OwnProperty v
      | None \<Rightarrow> (case inherited n of Some len \<Rightarrow> InheritedProperty len | None \<Rightarrow> NoProperty))"

subsection \<open>Helpers of other modules\<close>

text \<open>\<open>String.prototype.indexOf\<close>: the first position at which the pattern occurs,
  or -1.\<close>

fun indexOfFrom :: "nat \<Rightarrow> string \<Rightarrow> string \<Rightarrow> int" where
  "indexOfFrom i [] pattern = (if pattern = [] then int i else - 1)"
| "indexOfFrom i (c # cs) pattern =
     (if prefix pattern (c # cs) then int i else indexOfFrom (Suc i) cs pattern)"

definition indexOf :: "string \<Rightarrow> string \<Rightarrow> int" where
  "indexOf s pattern = indexOfFrom 0 s pattern"

text \<open>Modelled from the spec: \<open>isExcluded\<close> of \<open>../utils/utils\<close> is not in the source
  tree. The spec describes \<open>storageExclusionPrefixes\<close> as a list of name prefixes that
  suppress durable-storage writes: a name is excluded when one of them is a prefix of it.\<close>

definition isExcluded :: "string list \<Rightarrow> string \<Rightarrow> bool" where
  "isExcluded exclusionPrefixes recordName =
     list_ex (\<lambda>p. prefix p recordName) exclusionPrefixes"

text \<open>Modelled from the spec: \<open>recordRequest\<close> of \<open>./record-request\<close> is not in the source
  tree. It loads the record and completes with the record, with null, or with an error
  event; the handler's callbacks receive the record name and the socket wrapper of the
  call, as their parameter lists say.\<close>

definition recordRequest ::
  "string \<Rightarrow> deepstreamServices \<Rightarrow> socketWrapper \<Rightarrow>
   (storageRecord option \<Rightarrow> string \<Rightarrow> socketWrapper \<Rightarrow> 's \<Rightarrow> 's \<times> effect list) \<Rightarrow>
   (RA \<Rightarrow> string \<Rightarrow> string \<Rightarrow> socketWrapper \<Rightarrow> 's \<Rightarrow> 's \<times> effect list) \<Rightarrow>
   's \<Rightarrow> 's \<times> effect list" where
  "recordRequest recordName srv socketWrapper onComplete onError this =
     (case recordRequestResult srv recordName of
        Loaded rec \<Rightarrow> onComplete rec recordName socketWrapper this
      | LoadFailed event errorMessage \<Rightarrow> onError event errorMessage recordName socketWrapper this)"

subsection \<open>Replies and permissioning\<close>

definition sendRecord :: "string \<Rightarrow> storageRecord \<Rightarrow> socketWrapper \<Rightarrow> effect list" where
  "sendRecord recordName rec socketWrapper =
     [SendMessage socketWrapper
        ((recordMessage READ_RESPONSE recordName)
           \<lparr>version := Some (rec_v rec), parsedData := rec_d rec\<rparr>) False]"

text \<open>\<open>if (message.correlationId)\<close>: a string is truthy when it is defined and not
  empty.\<close>

fun truthyString :: "string option \<Rightarrow> bool" where
  "truthyString None = False"
| "truthyString (Some s) = (s \<noteq> [])"

text \<open>\<open>onPermissionResponse\<close>, bound to the socket wrapper, the message, the original
  action and the success callback; \<open>error\<close> and \<open>canPerformAction\<close> come from the
  permission handler.\<close>

definition onPermissionResponse ::
  "socketWrapper \<Rightarrow> message \<Rightarrow> RA \<Rightarrow> ('s \<Rightarrow> 's \<times> effect list) \<Rightarrow>
   jsError option \<Rightarrow> bool \<Rightarrow> 's \<Rightarrow> 's \<times> effect list" where
  "onPermissionResponse socketWrapper message originalAction' successCallback error allowed this =
     (if error \<noteq> None \<or> \<not> allowed then
        let (logged, act) =
              (case error of
                 Some e \<Rightarrow> ([LoggerError MESSAGE_PERMISSION_ERROR (toString e)],
                            MESSAGE_PERMISSION_ERROR)
               | None \<Rightarrow> ([], MESSAGE_DENIED));
            msg = (recordMessage act (name message))\<lparr>originalAction := Some originalAction'\<rparr>;
            msg = (if truthyString (correlationId message)
                   then msg\<lparr>correlationId := correlationId message\<rparr> else msg)
        in (this, logged @ [SendMessage socketWrapper msg False])
      else successCallback this)"

definition permissionAction ::
  "RA \<Rightarrow> message \<Rightarrow> RA \<Rightarrow> socketWrapper \<Rightarrow> 'cb handlerMethod \<Rightarrow> 'cb handlerMethod" where
  "permissionAction actionToPermission message originalAction' socketWrapper successCallback this =
     (let copyWithAction = message\<lparr>action := actionToPermission\<rparr>;
          (error, allowed) =
             canPerformAction (services this) (user socketWrapper) copyWithAction
               (authData socketWrapper) socketWrapper;
          (this', effs) =
             onPermissionResponse socketWrapper message originalAction' successCallback
               error allowed this
      in (this',
          CanPerformAction (user socketWrapper) copyWithAction (authData socketWrapper)
            socketWrapper # effs))"

subsection \<open>Reads\<close>

definition snapshot :: "socketWrapper \<Rightarrow> message \<Rightarrow> 'cb handlerMethod" where
  "snapshot socketWrapper message this =
     recordRequest (name message) (services this) socketWrapper
       (\<lambda>rec recordName socket h.
          case rec of
            Some r \<Rightarrow> (h, sendRecord recordName r socket)
          | None \<Rightarrow>
              (h, [SendMessage socket
                     ((recordMessage RECORD_NOT_FOUND (name message))
                        \<lparr>originalAction := Some (action message)\<rparr>) False]))
       (\<lambda>event errorMessage recordName socket h.
          (h, [SendMessage socket
                 ((recordMessage event recordName)
                    \<lparr>originalAction := Some (action message)\<rparr>) False]))
       this"

definition head :: "socketWrapper \<Rightarrow> message \<Rightarrow> 'cb handlerMethod" where
  "head socketWrapper message this =
     recordRequest (name message) (services this) socketWrapper
       (\<lambda>rec recordName socket h.
          (h, [SendMessage socketWrapper
                 ((recordMessage HEAD_RESPONSE (name message))
                    \<lparr>version := Some (case rec of Some r \<Rightarrow> rec_v r | None \<Rightarrow> - 1)\<rparr>)
                 False]))
       (\<lambda>event errorMessage recordName socket h.
          (h, [SendMessage socket
                 ((recordMessage event recordName)
                    \<lparr>originalAction := Some (action message)\<rparr>) False]))
       this"

definition subscribeAndHead :: "socketWrapper \<Rightarrow> message \<Rightarrow> 'cb handlerMethod" where
  "subscribeAndHead socketWrapper message this =
     (let (this', effs) = head socketWrapper message this
      in (this', effs @ [Subscribe (message\<lparr>action := SUBSCRIBE\<rparr>) socketWrapper]))"

definition readAndSubscribe :: "message \<Rightarrow> storageRecord \<Rightarrow> socketWrapper \<Rightarrow> 'cb handlerMethod" where
  "readAndSubscribe message rec socketWrapper this =
     permissionAction READ message (action message) socketWrapper
       (\<lambda>h. (h, Subscribe (message\<lparr>action := SUBSCRIBE\<rparr>) socketWrapper
                 # sendRecord (name message) rec socketWrapper))
       this"

subsection \<open>Create\<close>

text \<open>The callback \<open>create\<close> hands to \<open>cache.set\<close>.\<close>

definition create_cacheCallback ::
  "message \<Rightarrow> socketWrapper \<Rightarrow> (string \<Rightarrow> socketWrapper \<Rightarrow> 'cb handlerMethod) option \<Rightarrow>
   storageRecord \<Rightarrow> jsError option \<Rightarrow> 'cb handlerMethod" where
  "create_cacheCallback message socketWrapper callback rec error this =
     (case error of
        Some e \<Rightarrow>
          (this, [LoggerError RECORD_CREATE_ERROR (name message),
                  SendMessage socketWrapper
                    ((recordMessage RECORD_CREATE_ERROR (name message))
                       \<lparr>originalAction := Some (action message)\<rparr>) False])
      | None \<Rightarrow>
          (case callback of
             Some cb \<Rightarrow> cb (name message) socketWrapper this
           | None \<Rightarrow> readAndSubscribe message rec socketWrapper this))"

text \<open>The callback \<open>create\<close> hands to \<open>storage.set\<close>.\<close>

definition create_storageCallback :: "jsError option \<Rightarrow> effect list" where
  "create_storageCallback error =
     (case error of
        Some e \<Rightarrow> [LoggerError RECORD_CREATE_ERROR (''storage:'' @ toString e)]
      | None \<Rightarrow> [])"

text \<open>\<open>create\<close>: cache and storage operations are suspension points, so both \<open>set\<close>
  calls are made before either callback runs.\<close>

definition create ::
  "message \<Rightarrow> socketWrapper \<Rightarrow> (string \<Rightarrow> socketWrapper \<Rightarrow> 'cb handlerMethod) option \<Rightarrow> 'cb handlerMethod" where
  "create message socketWrapper callback this =
     (let recordName = name message;
          rec = \<lparr>rec_v = 0, rec_d = Some (JObject [])\<rparr>;
          excluded = isExcluded (storageExclusionPrefixes (config this)) (name message);
          calls = CacheSet recordName rec # (if \<not> excluded then [StorageSet recordName rec] else []);
          storageReply =
            (if \<not> excluded
             then create_storageCallback (storageSet (services this) recordName rec) else []);
          (this', cacheReply) =
            create_cacheCallback message socketWrapper callback rec
              (cacheSet (services this) recordName rec) this
      in if storageRepliesFirst (services this)
         then (this', calls @ storageReply @ cacheReply)
         else (this', calls @ cacheReply @ storageReply))"

definition createOrRead :: "socketWrapper \<Rightarrow> message \<Rightarrow> 'cb handlerMethod" where
  "createOrRead socketWrapper message this =
     recordRequest (name message) (services this) socketWrapper
       (\<lambda>rec recordName socket h.
          case rec of
            Some r \<Rightarrow> readAndSubscribe message r socket h
          | None \<Rightarrow>
              permissionAction CREATE message (action message) socket
                (create message socket None) h)
       (\<lambda>event errorMessage recordName socket h. (h, []))
       this"

subsection \<open>Hot-path writes\<close>

definition broadcastUpdate :: "string \<Rightarrow> message \<Rightarrow> bool \<Rightarrow> socketWrapper \<Rightarrow> effect list" where
  "broadcastUpdate n message noDelay originalSender =
     [SendToSubscribers n message noDelay originalSender]"

text \<open>\<open>parsedData: [message.version, error]\<close>.\<close>

definition handleForceWriteAcknowledgement ::
  "socketWrapper \<Rightarrow> message \<Rightarrow> bool \<Rightarrow> bool \<Rightarrow> jsError option \<Rightarrow> effect list" where
  "handleForceWriteAcknowledgement socketWrapper message cacheReplied storageReplied error =
     (if storageReplied \<and> cacheReplied then
        [SendMessage socketWrapper
           ((recordMessage WRITE_ACKNOWLEDGEMENT (name message))
              \<lparr>parsedData :=
                 Some (JArray
                   [case version message of Some v \<Rightarrow> JNumber v | None \<Rightarrow> JUndefined,
                    case error of Some (Error m) \<Rightarrow> JError m | None \<Rightarrow> JNull])\<rparr>)
           True]
      else [])"

text \<open>The variables \<open>cacheResponse\<close>, \<open>storageResponse\<close> and \<open>writeError\<close> that the two
  callbacks of \<open>forceWrite\<close> share.\<close>

record writeAckState =
  cacheResponse :: bool
  storageResponse :: bool
  writeError :: "jsError option"

text \<open>\<open>writeError || error || null\<close>.\<close>

definition firstError :: "jsError option \<Rightarrow> jsError option \<Rightarrow> jsError option" where
  "firstError w error = (case w of Some e \<Rightarrow> Some e | None \<Rightarrow> error)"

definition forceWrite_storageCallback ::
  "socketWrapper \<Rightarrow> message \<Rightarrow> bool \<Rightarrow> writeAckState \<Rightarrow> jsError option \<Rightarrow>
   writeAckState \<times> effect list" where
  "forceWrite_storageCallback socketWrapper message writeAck st error =
     (if writeAck then
        let st' = st\<lparr>storageResponse := True, writeError := firstError (writeError st) error\<rparr>
        in (st', handleForceWriteAcknowledgement socketWrapper message
                   (cacheResponse st') (storageResponse st') (writeError st'))
      else (st, []))"

definition forceWrite_cacheCallback ::
  "string \<Rightarrow> socketWrapper \<Rightarrow> message \<Rightarrow> bool \<Rightarrow> writeAckState \<Rightarrow> jsError option \<Rightarrow>
   writeAckState \<times> effect list" where
  "forceWrite_cacheCallback recordName socketWrapper message writeAck st error =
     (let broadcast =
            (if error = None then broadcastUpdate recordName message False socketWrapper
             else [])
      in if writeAck then
           let st' = st\<lparr>cacheResponse := True, writeError := firstError (writeError st) error\<rparr>
           in (st', broadcast @ handleForceWriteAcknowledgement socketWrapper message
                                 (cacheResponse st') (storageResponse st') (writeError st'))
         else (st, broadcast))"

text \<open>\<open>forceWrite\<close>: \<open>storage.set\<close> is called, then \<open>cache.set\<close>; the callbacks run
  afterwards, in the order the two layers reply.\<close>

definition forceWrite :: "string \<Rightarrow> message \<Rightarrow> socketWrapper \<Rightarrow> 'cb handlerMethod" where
  "forceWrite recordName message socketWrapper this =
     (let message = parseData (services this) message;
          rec = \<lparr>rec_v = 0, rec_d = parsedData message\<rparr>;
          writeAck = isWriteAck message;
          st0 = \<lparr>cacheResponse = False, storageResponse = False, writeError = None\<rparr>;
          storageError = storageSet (services this) recordName rec;
          cacheError = cacheSet (services this) recordName rec;
          calls = [StorageSet recordName rec, CacheSet recordName rec]
      in if storageRepliesFirst (services this) then
           let (st1, e1) = forceWrite_storageCallback socketWrapper message writeAck st0 storageError;
               (st2, e2) = forceWrite_cacheCallback recordName socketWrapper message writeAck st1 cacheError
           in (this, calls @ e1 @ e2)
         else
           let (st1, e1) = forceWrite_cacheCallback recordName socketWrapper message writeAck st0 cacheError;
               (st2, e2) = forceWrite_storageCallback socketWrapper message writeAck st1 storageError
           in (this, calls @ e1 @ e2))"

subsection \<open>Updates and the table of transitions\<close>

text \<open>\<open>update\<close>: an inherited value is truthy, so \<open>transition.hasVersion(version)\<close> is
  called on it and raises.\<close>

definition update :: "socketWrapper \<Rightarrow> message \<Rightarrow> bool \<Rightarrow> 'cb handlerMethod" where
  "update socketWrapper message upsert this =
     (let recordName = name message;
          version' = version message;
          isPatch = (path message \<noteq> None);
          message = message\<lparr>action := (if isPatch then PATCH else UPDATE)\<rparr>
      in if isRemote socketWrapper then
           (this, broadcastUpdate recordName message False socketWrapper)
         else
           (case getProperty (transitions this) recordName of
              OwnProperty transition \<Rightarrow>
                if hasVersion (services this) transition version' then
                  (this, [TransitionSendVersionExists transition message version' socketWrapper])
                else
                  (this, [TransitionAdd transition socketWrapper message (Some upsert)])
            | InheritedProperty len \<Rightarrow> (this, [Throw TypeError])
            | NoProperty \<Rightarrow>
                let transition = transitionsCreated this
                in (this\<lparr>transitions := (transitions this)(recordName \<mapsto> transition),
                         transitionsCreated := Suc transition\<rparr>,
                    [NewRecordTransition recordName transition,
                     TransitionAdd transition socketWrapper message (Some upsert)])))"

definition transitionComplete :: "string \<Rightarrow> 'cb handlerMethod" where
  "transitionComplete recordName this =
     (this\<lparr>transitions := (transitions this)(recordName := None)\<rparr>, [])"

text \<open>The loop of \<open>createAndUpdate\<close> over \<open>storageHotPathPrefixes\<close>: the branch through
  which an iteration returns, or \<open>None\<close> when the loop runs to its end.\<close>

datatype hotPathBranch = HotPathWrite | PatchOnHotPath

fun createAndUpdate_loop :: "string list \<Rightarrow> string \<Rightarrow> bool \<Rightarrow> hotPathBranch option" where
  "createAndUpdate_loop [] recordName isPatch = None"
| "createAndUpdate_loop (pattern # rest) recordName isPatch =
     (if indexOf recordName pattern \<noteq> - 1 \<and> \<not> isPatch then Some HotPathWrite
      else if isPatch then Some PatchOnHotPath
      else createAndUpdate_loop rest recordName isPatch)"

text \<open>\<open>createAndUpdate\<close>: after the loop an inherited value counts as a transition in
  progress, and \<open>transition.add\<close> raises once the permission check has passed.\<close>

definition createAndUpdate :: "socketWrapper \<Rightarrow> message \<Rightarrow> 'cb handlerMethod" where
  "createAndUpdate socketWrapper message this =
     (let recordName = name message;
          isPatch = (path message \<noteq> None);
          originalAction' = action message;
          message = message\<lparr>action := (if isPatch then PATCH else UPDATE)\<rparr>
      in case createAndUpdate_loop (storageHotPathPrefixes (config this)) recordName isPatch of
           Some HotPathWrite \<Rightarrow>
             permissionAction CREATE message originalAction' socketWrapper
               (permissionAction UPDATE message originalAction' socketWrapper
                  (forceWrite recordName message socketWrapper))
               this
         | Some PatchOnHotPath \<Rightarrow>
             (this, [SendMessage socketWrapper
                       ((recordMessage INVALID_PATCH_ON_HOTPATH recordName)
                          \<lparr>originalAction := Some (action message)\<rparr>) False])
         | None \<Rightarrow>
             (case getProperty (transitions this) recordName of
                OwnProperty transition \<Rightarrow>
                  permissionAction (action message) message originalAction' socketWrapper
                    (\<lambda>h. (h, [TransitionAdd transition socketWrapper message None]))
                    this
              | InheritedProperty len \<Rightarrow>
                  permissionAction (action message) message originalAction' socketWrapper
                    (\<lambda>h. (h, [Throw TypeError]))
                    this
              | NoProperty \<Rightarrow>
                  permissionAction CREATE message originalAction' socketWrapper
                    (permissionAction UPDATE message originalAction' socketWrapper
                       (update socketWrapper message True))
                    this))"

subsection \<open>The stability gate\<close>

text \<open>Both methods return the callbacks they invoke, each with its argument, or the
  exception they raise. The call of the callback is the last statement of the method, so
  a callback that calls back into the handler runs on the handler returned here. An
  exception is raised before anything is changed.\<close>

text \<open>\<open>removeRecordRequest\<close>: an inherited value passes the first test; when its length
  is 0 the \<open>delete\<close> finds no own property, otherwise \<open>splice\<close> is called on it and
  raises.\<close>

definition removeRecordRequest ::
  "string \<Rightarrow> 'cb recordHandler \<Rightarrow>
   jsException + 'cb recordHandler \<times> ('cb \<times> string) list" where
  "removeRecordRequest recordName this =
     (case getProperty (recordRequestsInProgress this) recordName of
        NoProperty \<Rightarrow> Inr (this, [])
      | OwnProperty [] \<Rightarrow>
          Inr (this\<lparr>recordRequestsInProgress :=
                       (recordRequestsInProgress this)(recordName := None)\<rparr>, [])
      | OwnProperty (callback # rest) \<Rightarrow>
          Inr (this\<lparr>recordRequestsInProgress :=
                       (recordRequestsInProgress this)(recordName \<mapsto> rest)\<rparr>,
               [(callback, recordName)])
      | InheritedProperty len \<Rightarrow>
          if len = Some 0 then
            Inr (this\<lparr>recordRequestsInProgress :=
                         (recordRequestsInProgress this)(recordName := None)\<rparr>, [])
          else Inl TypeError)"

text \<open>\<open>runWhenRecordStable\<close>: an inherited value of length 0 is taken for an empty
  queue; on any other inherited value \<open>push\<close> is called and raises.\<close>

definition runWhenRecordStable ::
  "string \<Rightarrow> 'cb \<Rightarrow> 'cb recordHandler \<Rightarrow>
   jsException + 'cb recordHandler \<times> ('cb \<times> string) list" where
  "runWhenRecordStable recordName callback this =
     (let installed =
            (this\<lparr>recordRequestsInProgress :=
                     (recordRequestsInProgress this)(recordName \<mapsto> [])\<rparr>,
             [(callback, recordName)])
      in case getProperty (recordRequestsInProgress this) recordName of
           NoProperty \<Rightarrow> Inr installed
         | OwnProperty [] \<Rightarrow> Inr installed
         | OwnProperty (c # q) \<Rightarrow>
             Inr (this\<lparr>recordRequestsInProgress :=
                          (recordRequestsInProgress this)(recordName \<mapsto> (c # q) @ [callback])\<rparr>,
                  [])
         | InheritedProperty len \<Rightarrow>
             if len = Some 0 then Inr installed else Inl TypeError)"

subsection \<open>Deletion\<close>

definition onDeleted :: "string \<Rightarrow> message \<Rightarrow> socketWrapper \<Rightarrow> 'cb handlerMethod" where
  "onDeleted n message originalSender this =
     (this, broadcastUpdate n message True originalSender
            @ map (\<lambda>subscriber. Unsubscribe message subscriber True)
                (getLocalSubscribers (services this) n))"

text \<open>Modelled from the spec: \<open>RecordDeletion\<close> of \<open>./record-deletion\<close> is not in the
  source tree. It deletes the record from cache and storage and, on success, calls the
  callback it was given with the name of the record, the message and the socket
  wrapper.\<close>

definition recordDeletion ::
  "deepstreamServices \<Rightarrow> socketWrapper \<Rightarrow> message \<Rightarrow>
   (string \<Rightarrow> message \<Rightarrow> socketWrapper \<Rightarrow> 's \<Rightarrow> 's \<times> effect list) \<Rightarrow> 's \<Rightarrow> 's \<times> effect list" where
  "recordDeletion srv socketWrapper message successCallback this =
     (let (this', deleted) =
            (if recordDeletionSucceeds srv message
             then successCallback (name message) message socketWrapper this else (this, []))
      in (this', NewRecordDeletion socketWrapper message # deleted))"

text \<open>\<open>delete\<close> and \<open>remoteDelete\<close>: an inherited value is truthy, so \<open>destroy\<close> is called
  on it and raises before anything else is done.\<close>

definition delete :: "socketWrapper \<Rightarrow> message \<Rightarrow> 'cb handlerMethod" where
  "delete socketWrapper message this =
     (let recordName = name message
      in case getProperty (transitions this) recordName of
           InheritedProperty len \<Rightarrow> (this, [Throw TypeError])
         | OwnProperty transition \<Rightarrow>
             (let this1 = this\<lparr>transitions := (transitions this)(recordName := None)\<rparr>;
                  (this2, deleted) =
                    recordDeletion (services this1) socketWrapper message onDeleted this1
              in (this2, TransitionDestroy transition # deleted))
         | NoProperty \<Rightarrow>
             recordDeletion (services this) socketWrapper message onDeleted this)"

definition remoteDelete :: "socketWrapper \<Rightarrow> message \<Rightarrow> 'cb handlerMethod" where
  "remoteDelete socketWrapper message this =
     (let recordName = name message
      in case getProperty (transitions this) recordName of
           InheritedProperty len \<Rightarrow> (this, [Throw TypeError])
         | OwnProperty transition \<Rightarrow>
             (let this1 = this\<lparr>transitions := (transitions this)(recordName := None)\<rparr>;
                  (this2, deleted) = onDeleted recordName message socketWrapper this1
              in (this2, TransitionDestroy transition # deleted))
         | NoProperty \<Rightarrow> onDeleted recordName message socketWrapper this)"

subsection \<open>Dispatch\<close>

fun WRITE_ACK_TO_ACTION :: "RA \<Rightarrow> RA option" where
  "WRITE_ACK_TO_ACTION CREATEANDPATCH_WITH_WRITE_ACK = Some CREATEANDPATCH"
| "WRITE_ACK_TO_ACTION CREATEANDUPDATE_WITH_WRITE_ACK = Some CREATEANDUPDATE"
| "WRITE_ACK_TO_ACTION PATCH_WITH_WRITE_ACK = Some PATCH"
| "WRITE_ACK_TO_ACTION UPDATE_WITH_WRITE_ACK = Some UPDATE"
| "WRITE_ACK_TO_ACTION ERASE_WITH_WRITE_ACK = Some ERASE"
| "WRITE_ACK_TO_ACTION _ = None"

text \<open>\<open>handle\<close>: \<open>act\<close> is \<open>None\<close> when the table has no entry for the action of a
  write-ack message.\<close>

definition handle :: "socketWrapper \<Rightarrow> message \<Rightarrow> 'cb handlerMethod" where
  "handle socketWrapper message this =
     (let act = (if isWriteAck message then WRITE_ACK_TO_ACTION (action message)
                 else Some (action message))
      in if act = Some SUBSCRIBECREATEANDREAD then
           createOrRead socketWrapper message this
         else if act = Some CREATEANDUPDATE \<or> act = Some CREATEANDPATCH then
           createAndUpdate socketWrapper message this
         else if act = Some READ then
           snapshot socketWrapper message this
         else if act = Some HEAD then
           head socketWrapper message this
         else if act = Some SUBSCRIBEANDHEAD then
           subscribeAndHead socketWrapper message this
         else if act = Some UPDATE \<or> act = Some PATCH \<or> act = Some ERASE then
           update socketWrapper message (isWriteAck message) this
         else if act = Some DELETE then
           delete socketWrapper message this
         else if act = Some DELETE_SUCCESS then
           remoteDelete socketWrapper message this
         else if act = Some UNSUBSCRIBE then
           (this, [Unsubscribe message socketWrapper False])
         else if act = Some LISTEN \<or> act = Some UNLISTEN \<or> act = Some LISTEN_ACCEPT
                 \<or> act = Some LISTEN_REJECT then
           (this, [ListenerHandle socketWrapper message])
         else
           (this, [LoggerErrorUnknownAction act]))"

subsection \<open>Sequences of calls on the handler\<close>

text \<open>
  What happens to a handler over time, one step after the other:
  \<^item> a message is handled;
  \<^item> the continuation of the permission checks of \<open>createAndUpdate\<close>, suspended while
    the handler did other work, runs: it is a call of \<open>update\<close>, the only continuation in
    this file that reads or writes the table of transitions;
  \<^item> a record transition (given by its handle) calls \<open>transitionComplete\<close> with a record
    name;
  \<^item> the collaborators change what they answer from now on.
  A step that raises leaves the handler as it was, and the steps after it still run.
\<close>

datatype handlerCall =
    Handle socketWrapper message
  | Update socketWrapper message bool
  | TransitionComplete nat string
  | Answers deepstreamServices

fun handlerStep :: "handlerCall \<Rightarrow> 'cb handlerMethod" where
  "handlerStep (Handle s m) this = handle s m this"
| "handlerStep (Update s m upsert) this = update s m upsert this"
| "handlerStep (TransitionComplete t n) this = transitionComplete n this"
| "handlerStep (Answers srv) this = (this\<lparr>services := srv\<rparr>, [])"

text \<open>The record transitions alive, each with the name it was built for, read off the
  trace: \<open>new RecordTransition\<close> adds one, \<open>destroy\<close> ends one, and the transition that
  calls \<open>transitionComplete\<close> has ended. The table of the handler plays no part in this
  bookkeeping.\<close>

fun liveAfterEffect :: "(string \<times> nat) list \<Rightarrow> effect \<Rightarrow> (string \<times> nat) list" where
  "liveAfterEffect live (NewRecordTransition n t) = live @ [(n, t)]"
| "liveAfterEffect live (TransitionDestroy t) = filter (\<lambda>(n', t'). t' \<noteq> t) live"
| "liveAfterEffect live _ = live"

fun liveAfterCall ::
  "(string \<times> nat) list \<Rightarrow> handlerCall \<Rightarrow> effect list \<Rightarrow> (string \<times> nat) list" where
  "liveAfterCall live (TransitionComplete t n) effs = filter (\<lambda>(n', t'). t' \<noteq> t) live"
| "liveAfterCall live c effs = foldl liveAfterEffect live effs"

fun handlerRun ::
  "handlerCall list \<Rightarrow> 'cb recordHandler \<Rightarrow> (string \<times> nat) list \<Rightarrow>
   'cb recordHandler \<times> (string \<times> nat) list" where
  "handlerRun [] this live = (this, live)"
| "handlerRun (c # cs) this live =
     (let (this1, effs) = handlerStep c this
      in handlerRun cs this1 (liveAfterCall live c effs))"

text \<open>What the handler expects of record transitions, which are outside this file: the
  doc comment of \<open>transitionComplete\<close> has it called by a record transition when it is
  complete or has failed. A sequence of calls meets this when every call of
  \<open>transitionComplete\<close> comes from a transition that is alive at that moment and names
  the record it was built for.\<close>

fun callExpected :: "(string \<times> nat) list \<Rightarrow> handlerCall \<Rightarrow> bool" where
  "callExpected live (TransitionComplete t n) = ((n, t) \<in> set live)"
| "callExpected live c = True"

fun callsExpected ::
  "handlerCall list \<Rightarrow> 'cb recordHandler \<Rightarrow> (string \<times> nat) list \<Rightarrow> bool" where
  "callsExpected [] this live = True"
| "callsExpected (c # cs) this live =
     (callExpected live c
      \<and> (let (this1, effs) = handlerStep c this
         in callsExpected cs this1 (liveAfterCall live c effs)))"

text \<open>The table tracks the live transitions: no two of them have the same name, they are
  different objects numbered below \<open>transitionsCreated\<close>, and the table maps every name
  to its live transition and no other name to anything.\<close>

definition tableTracks :: "'cb recordHandler \<Rightarrow> (string \<times> nat) list \<Rightarrow> bool" where
  "tableTracks this live \<longleftrightarrow>
     distinct (map fst live) \<and> distinct (map snd live)
     \<and> map_of live = transitions this
     \<and> list_all (\<lambda>(n, t). t < transitionsCreated this) live"

text \<open>The effects that build or end a transition.\<close>

fun tableEffect :: "effect \<Rightarrow> bool" where
  "tableEffect (NewRecordTransition n t) = True"
| "tableEffect (TransitionDestroy t) = True"
| "tableEffect _ = False"

text \<open>The three ways in which a call on the handler may touch the table: not at all;
  by building the transition of a name that has none; by destroying the transition of a
  name.\<close>

definition tableStep ::
  "'cb recordHandler \<Rightarrow> 'cb recordHandler \<times> effect list \<Rightarrow> bool" where
  "tableStep this r \<longleftrightarrow>
     (transitions (fst r) = transitions this
        \<and> transitionsCreated (fst r) = transitionsCreated this
        \<and> filter tableEffect (snd r) = [])
     \<or> (\<exists>n. transitions this n = None
           \<and> transitions (fst r) = (transitions this)(n \<mapsto> transitionsCreated this)
           \<and> transitionsCreated (fst r) = Suc (transitionsCreated this)
           \<and> filter tableEffect (snd r) = [NewRecordTransition n (transitionsCreated this)])
     \<or> (\<exists>n t. transitions this n = Some t
           \<and> transitions (fst r) = (transitions this)(n := None)
           \<and> transitionsCreated (fst r) = transitionsCreated this
           \<and> filter tableEffect (snd r) = [TransitionDestroy t])"

subsection \<open>Reading traces\<close>

text \<open>The records handed to \<open>cache.set\<close> and to \<open>storage.set\<close> in a trace, with the names
  they are written under.\<close>

fun cacheWrite :: "effect \<Rightarrow> (string \<times> storageRecord) list" where
  "cacheWrite (CacheSet n r) = [(n, r)]"
| "cacheWrite _ = []"

fun storageWrite :: "effect \<Rightarrow> (string \<times> storageRecord) list" where
  "storageWrite (StorageSet n r) = [(n, r)]"
| "storageWrite _ = []"

definition cacheWrites :: "effect list \<Rightarrow> (string \<times> storageRecord) list" where
  "cacheWrites effs = concat (map cacheWrite effs)"

definition storageWrites :: "effect list \<Rightarrow> (string \<times> storageRecord) list" where
  "storageWrites effs = concat (map storageWrite effs)"

subsection \<open>Sequences of calls on the stability gate\<close>

datatype 'cb gateCall = RunWhenRecordStable 'cb | RemoveRecordRequest

fun gateStep ::
  "string \<Rightarrow> 'cb gateCall \<Rightarrow> 'cb recordHandler \<Rightarrow>
   jsException + 'cb recordHandler \<times> ('cb \<times> string) list" where
  "gateStep n (RunWhenRecordStable cb) this = runWhenRecordStable n cb this"
| "gateStep n RemoveRecordRequest this = removeRecordRequest n this"

text \<open>Running a list of calls on one record name. The log keeps, for every call, the
  own table entry the call found, the call, and what the call did: the callbacks it
  invoked, or that it raised. A call that raises leaves the handler as it was, and the
  calls after it still run.\<close>

datatype 'cb gateOutcome = Invoked "'cb list" | Threw

type_synonym 'cb gateLog = "('cb list option \<times> 'cb gateCall \<times> 'cb gateOutcome) list"

fun gateRun :: "string \<Rightarrow> 'cb gateCall list \<Rightarrow> 'cb recordHandler \<Rightarrow> 'cb recordHandler \<times> 'cb gateLog" where
  "gateRun n [] this = (this, [])"
| "gateRun n (c # cs) this =
     (case gateStep n c this of
        Inl e \<Rightarrow>
          (let (this2, log) = gateRun n cs this
           in (this2, (recordRequestsInProgress this n, c, Threw) # log))
      | Inr (this1, invoked) \<Rightarrow>
          (let (this2, log) = gateRun n cs this1
           in (this2, (recordRequestsInProgress this n, c, Invoked (map fst invoked)) # log)))"

text \<open>The queue of a name: empty when the table has no entry.\<close>

definition queueOf :: "'cb recordHandler \<Rightarrow> string \<Rightarrow> 'cb list" where
  "queueOf this n = (case recordRequestsInProgress this n of None \<Rightarrow> [] | Some q \<Rightarrow> q)"

text \<open>Of a log entry: the callback a \<open>runWhenRecordStable\<close> call queued (it invoked
  nothing and did not raise), the callbacks a \<open>removeRecordRequest\<close> call released, the
  callbacks the call invoked, and the callback handed in.\<close>

fun deferredBy :: "'cb list option \<times> 'cb gateCall \<times> 'cb gateOutcome \<Rightarrow> 'cb list" where
  "deferredBy (q, RunWhenRecordStable cb, Invoked []) = [cb]"
| "deferredBy _ = []"

fun releasedBy :: "'cb list option \<times> 'cb gateCall \<times> 'cb gateOutcome \<Rightarrow> 'cb list" where
  "releasedBy (q, RemoveRecordRequest, Invoked invoked) = invoked"
| "releasedBy _ = []"

fun invokedBy :: "'cb list option \<times> 'cb gateCall \<times> 'cb gateOutcome \<Rightarrow> 'cb list" where
  "invokedBy (q, c, Invoked invoked) = invoked"
| "invokedBy (q, c, Threw) = []"

fun handedIn :: "'cb gateCall \<Rightarrow> 'cb list" where
  "handedIn (RunWhenRecordStable cb) = [cb]"
| "handedIn RemoveRecordRequest = []"

text \<open>What a \<open>removeRecordRequest\<close> call must invoke given the entry it finds: the head of
  a non-empty queue, and nothing otherwise.\<close>

fun headOfQueue :: "'cb list option \<Rightarrow> 'cb list" where
  "headOfQueue (Some (cb # q)) = [cb]"
| "headOfQueue _ = []"

subsection \<open>Scenario data\<close>

text \<open>A client socket, collaborators that allow every action and report no error, and a
  handler as the constructor leaves it, with \<open>hot/\<close> configured both as a hot-path prefix
  and as a storage-exclusion prefix.\<close>

definition exampleSocket :: socketWrapper where
  "exampleSocket = \<lparr>uuid = 1, user = ''alice'', authData = JNull, isRemote = False\<rparr>"

definition exampleServices :: deepstreamServices where
  "exampleServices =
     \<lparr>canPerformAction = (\<lambda>u m a s. (None, True)),
      cacheSet = (\<lambda>n r. None),
      storageSet = (\<lambda>n r. None),
      storageRepliesFirst = True,
      recordRequestResult = (\<lambda>n. Loaded None),
      parseData = (\<lambda>m. m\<lparr>parsedData := Some (JObject [(''v'', JNumber 1)])\<rparr>),
      hasVersion = (\<lambda>t v. False),
      getLocalSubscribers = (\<lambda>n. []),
      recordDeletionSucceeds = (\<lambda>m. True)\<rparr>"

definition exampleHandler :: "nat recordHandler" where
  "exampleHandler =
     \<lparr>config = \<lparr>storageHotPathPrefixes = [''hot/''], storageExclusionPrefixes = [''hot/'']\<rparr>,
      services = exampleServices,
      transitions = Map.empty,
      recordRequestsInProgress = Map.empty,
      transitionsCreated = 0\<rparr>"

text \<open>A handler with work in flight on \<open>a/1\<close>: transition 0 is in the table and one
  callback waits at the gate.\<close>

definition busyHandler :: "nat recordHandler" where
  "busyHandler =
     exampleHandler\<lparr>transitions := [''a/1'' \<mapsto> 0], transitionsCreated := 1,
                    recordRequestsInProgress := [''a/1'' \<mapsto> [10]]\<rparr>"

text \<open>Handlers whose permission handler denies, or fails; one whose record request fails;
  one whose record request finds version 3.\<close>

definition denyingHandler :: "nat recordHandler" where
  "denyingHandler =
     exampleHandler\<lparr>services :=
       exampleServices\<lparr>canPerformAction := (\<lambda>u m a s. (None, False))\<rparr>\<rparr>"

definition erringHandler :: "nat recordHandler" where
  "erringHandler =
     exampleHandler\<lparr>services :=
       exampleServices\<lparr>canPerformAction := (\<lambda>u m a s. (Some (Error ''rule failed''), False))\<rparr>\<rparr>"

definition failingHandler :: "nat recordHandler" where
  "failingHandler =
     exampleHandler\<lparr>services :=
       exampleServices\<lparr>recordRequestResult :=
         (\<lambda>n. LoadFailed RECORD_LOAD_ERROR ''cache unreachable'')\<rparr>\<rparr>"

definition storedHandler :: "nat recordHandler" where
  "storedHandler =
     exampleHandler\<lparr>services :=
       exampleServices\<lparr>recordRequestResult :=
         (\<lambda>n. Loaded (Some \<lparr>rec_v = 3, rec_d = Some (JObject [(''x'', JNumber 1)])\<rparr>))\<rparr>\<rparr>"

text \<open>Messages: a full write to \<open>hot/x\<close> that carries version 5 and asks for an
  acknowledgement; a patch of \<open>cold/x\<close>; a write to \<open>a/1\<close> with a correlation id; an
  update and a delete of \<open>a/1\<close>.\<close>

definition hotWrite :: message where
  "hotWrite =
     (recordMessage CREATEANDUPDATE_WITH_WRITE_ACK ''hot/x'')
       \<lparr>version := Some 5, data := Some ''{v:1}'', isWriteAck := True\<rparr>"

definition coldPatch :: message where
  "coldPatch =
     (recordMessage CREATEANDPATCH ''cold/x'')
       \<lparr>version := Some 1, path := Some ''v'', data := Some ''1''\<rparr>"

definition taggedWrite :: message where
  "taggedWrite =
     (recordMessage CREATEANDUPDATE ''a/1'')\<lparr>version := Some 1, correlationId := Some ''c7''\<rparr>"

definition writeA :: message where
  "writeA = (recordMessage UPDATE ''a/1'')\<lparr>version := Some 1, data := Some ''{}''\<rparr>"

definition deleteA :: message where
  "deleteA = recordMessage DELETE ''a/1''"

text \<open>Calls on the gate of \<open>a/1\<close>.\<close>

definition exampleGateCalls :: "nat gateCall list" where
  "exampleGateCalls =
     [RunWhenRecordStable 1, RunWhenRecordStable 2, RemoveRecordRequest, RemoveRecordRequest,
      RemoveRecordRequest, RemoveRecordRequest, RemoveRecordRequest, RunWhenRecordStable 3]"

text \<open>Calls on the handler: two updates of \<open>a/1\<close>, its deletion, a resumed update, the
  completion of transition 1, and one more update.\<close>

definition exampleHandlerCalls :: "handlerCall list" where
  "exampleHandlerCalls =
     [Handle exampleSocket writeA, Handle exampleSocket writeA, Handle exampleSocket deleteA,
      Update exampleSocket writeA True, TransitionComplete 1 ''a/1'',
      Handle exampleSocket writeA]"

text \<open>An update and a delete of the record named \<open>constructor\<close>.\<close>

definition writeConstructor :: message where
  "writeConstructor =
     (recordMessage UPDATE ''constructor'')\<lparr>version := Some 1, data := Some ''{}''\<rparr>"

definition deleteConstructor :: message where
  "deleteConstructor = recordMessage DELETE ''constructor''"

section \<open>Properties\<close>

lemmas method_defs =
  createAndUpdate_def permissionAction_def onPermissionResponse_def forceWrite_def
  forceWrite_storageCallback_def forceWrite_cacheCallback_def handleForceWriteAcknowledgement_def
  broadcastUpdate_def firstError_def recordMessage_def indexOf_def Let_def
  snapshot_def head_def createOrRead_def recordRequest_def readAndSubscribe_def sendRecord_def
  create_def create_cacheCallback_def create_storageCallback_def isExcluded_def
  update_def transitionComplete_def delete_def remoteDelete_def onDeleted_def handle_def

lemmas example_defs = exampleHandler_def exampleServices_def exampleSocket_def

lemmas dispatch_defs =
  handle_def update_def delete_def onDeleted_def transitionComplete_def broadcastUpdate_def
  Let_def

lemmas gate_defs = runWhenRecordStable_def removeRecordRequest_def queueOf_def

subsection \<open>The loop over the hot-path prefixes\<close>

lemma createAndUpdate_loop_update:
  "createAndUpdate_loop ps n False =
     (if \<exists>p \<in> set ps. indexOf n p \<noteq> - 1 then Some HotPathWrite else None)"
  by (induction ps) auto

lemma createAndUpdate_loop_patch:
  "createAndUpdate_loop ps n True = (if ps = [] then None else Some PatchOnHotPath)"
  by (cases ps) auto

text \<open>A name that starts with a pattern contains it.\<close>

lemma indexOfFrom_prefix: "prefix p s \<Longrightarrow> indexOfFrom i s p = int i"
  by (cases s) auto

lemma indexOf_prefix: "prefix p s \<Longrightarrow> indexOf s p \<noteq> - 1"
  by (simp add: indexOf_def indexOfFrom_prefix)

subsection \<open>Permissioning\<close>

lemma permissionAction_allowed:
  "canPerformAction (services this) (user sock) (m\<lparr>action := a\<rparr>) (authData sock) sock
     = (None, True) \<Longrightarrow>
   permissionAction a m orig sock k this =
     (fst (k this),
      CanPerformAction (user sock) (m\<lparr>action := a\<rparr>) (authData sock) sock # snd (k this))"
  by (simp add: permissionAction_def onPermissionResponse_def split_def Let_def)

lemma permissionAction_denied:
  "canPerformAction (services this) (user sock) (m\<lparr>action := a\<rparr>) (authData sock) sock
     = (None, False) \<Longrightarrow>
   permissionAction a m orig sock k this =
     (this, [CanPerformAction (user sock) (m\<lparr>action := a\<rparr>) (authData sock) sock,
             SendMessage sock
               ((recordMessage MESSAGE_DENIED (name m))
                  \<lparr>correlationId :=
                     (if truthyString (correlationId m) then correlationId m else None),
                   originalAction := Some orig\<rparr>) False])"
  by (simp add: permissionAction_def onPermissionResponse_def recordMessage_def)

lemma permissionAction_error:
  "canPerformAction (services this) (user sock) (m\<lparr>action := a\<rparr>) (authData sock) sock
     = (Some e, b) \<Longrightarrow>
   permissionAction a m orig sock k this =
     (this, [CanPerformAction (user sock) (m\<lparr>action := a\<rparr>) (authData sock) sock,
             LoggerError MESSAGE_PERMISSION_ERROR (toString e),
             SendMessage sock
               ((recordMessage MESSAGE_PERMISSION_ERROR (name m))
                  \<lparr>correlationId :=
                     (if truthyString (correlationId m) then correlationId m else None),
                   originalAction := Some orig\<rparr>) False])"
  by (simp add: permissionAction_def onPermissionResponse_def recordMessage_def)

lemma permission_cases:
  obtains (allowed) "canPerformAction (services this) u m a s = (None, True)"
  | (denied) "canPerformAction (services this) u m a s = (None, False)"
  | (failed) e b where "canPerformAction (services this) u m a s = (Some e, b)"
  by (cases "canPerformAction (services this) u m a s") (auto, metis option.exhaust)

lemma cacheWrites_permissionAction:
  "cacheWrites (snd (permissionAction a m orig sock k this)) =
     (if canPerformAction (services this) (user sock) (m\<lparr>action := a\<rparr>) (authData sock) sock
           = (None, True)
      then cacheWrites (snd (k this)) else [])"
  by (rule permission_cases[of this "user sock" "m\<lparr>action := a\<rparr>" "authData sock" sock])
     (simp_all add: permissionAction_allowed permissionAction_denied permissionAction_error
        cacheWrites_def)

lemma storageWrites_permissionAction:
  "storageWrites (snd (permissionAction a m orig sock k this)) =
     (if canPerformAction (services this) (user sock) (m\<lparr>action := a\<rparr>) (authData sock) sock
           = (None, True)
      then storageWrites (snd (k this)) else [])"
  by (rule permission_cases[of this "user sock" "m\<lparr>action := a\<rparr>" "authData sock" sock])
     (simp_all add: permissionAction_allowed permissionAction_denied permissionAction_error
        storageWrites_def)

subsection \<open>Hot-path writes\<close>

lemma cacheWrites_forceWrite:
  "cacheWrites (snd (forceWrite n m sock this)) =
     [(n, \<lparr>rec_v = 0, rec_d = parsedData (parseData (services this) m)\<rparr>)]"
  by (simp add: forceWrite_def forceWrite_storageCallback_def forceWrite_cacheCallback_def
        handleForceWriteAcknowledgement_def broadcastUpdate_def cacheWrites_def Let_def split_def)

lemma storageWrites_forceWrite:
  "storageWrites (snd (forceWrite n m sock this)) =
     [(n, \<lparr>rec_v = 0, rec_d = parsedData (parseData (services this) m)\<rparr>)]"
  by (simp add: forceWrite_def forceWrite_storageCallback_def forceWrite_cacheCallback_def
        handleForceWriteAcknowledgement_def broadcastUpdate_def storageWrites_def Let_def split_def)

lemma createAndUpdate_hot:
  assumes "path m = None"
    and "\<exists>p \<in> set (storageHotPathPrefixes (config this)). indexOf (name m) p \<noteq> - 1"
  shows "createAndUpdate sock m this =
     permissionAction CREATE (m\<lparr>action := UPDATE\<rparr>) (action m) sock
       (permissionAction UPDATE (m\<lparr>action := UPDATE\<rparr>) (action m) sock
          (forceWrite (name m) (m\<lparr>action := UPDATE\<rparr>) sock)) this"
  using assms by (simp add: createAndUpdate_def createAndUpdate_loop_update Let_def)

text \<open>A patch never reaches the transition when any hot-path prefix is configured,
  whatever its name.\<close>

lemma createAndUpdate_patch:
  assumes "path m \<noteq> None" and "storageHotPathPrefixes (config this) \<noteq> []"
  shows "createAndUpdate sock m this =
     (this, [SendMessage sock
               ((recordMessage INVALID_PATCH_ON_HOTPATH (name m))
                  \<lparr>originalAction := Some PATCH\<rparr>) False])"
  using assms by (simp add: createAndUpdate_def createAndUpdate_loop_patch Let_def)

text \<open>\<open>create\<close>, called without a continuation as \<open>createOrRead\<close> does, keeps an excluded
  name out of storage.\<close>

lemma create_excluded:
  "isExcluded (storageExclusionPrefixes (config this)) (name m) \<Longrightarrow>
   storageWrites (snd (create m sock None this)) = []"
  by (rule permission_cases[of this "user sock" "m\<lparr>action := READ\<rparr>" "authData sock" sock])
     (simp_all add: create_def create_cacheCallback_def readAndSubscribe_def sendRecord_def
        permissionAction_allowed permissionAction_denied permissionAction_error
        storageWrites_def Let_def split_def split: option.splits)

text \<open>Claim C1, as amended: on a hot-path CREATE_AND_UPDATE (no path field, a configured
  hot-path prefix occurs in the name) every record handed to \<open>cache.set\<close> or \<open>storage.set\<close>
  is written under the message's name, has version 0 whatever version the message carries,
  and holds the parsed data of the message; when the CREATE and the UPDATE check both
  pass, exactly one such record goes to each layer.\<close>

theorem hot_path_write_has_version_zero:
  assumes "path m = None"
    and "\<exists>p \<in> set (storageHotPathPrefixes (config this)). indexOf (name m) p \<noteq> - 1"
  shows "(\<forall>w \<in> set (cacheWrites (snd (createAndUpdate sock m this))
                    @ storageWrites (snd (createAndUpdate sock m this))).
            w = (name m, \<lparr>rec_v = 0,
                           rec_d = parsedData (parseData (services this) (m\<lparr>action := UPDATE\<rparr>))\<rparr>))
       \<and> (canPerformAction (services this) (user sock) (m\<lparr>action := CREATE\<rparr>) (authData sock) sock
             = (None, True)
          \<and> canPerformAction (services this) (user sock) (m\<lparr>action := UPDATE\<rparr>) (authData sock) sock
             = (None, True)
          \<longrightarrow> cacheWrites (snd (createAndUpdate sock m this))
                = [(name m, \<lparr>rec_v = 0,
                     rec_d = parsedData (parseData (services this) (m\<lparr>action := UPDATE\<rparr>))\<rparr>)]
            \<and> storageWrites (snd (createAndUpdate sock m this))
                = [(name m, \<lparr>rec_v = 0,
                     rec_d = parsedData (parseData (services this) (m\<lparr>action := UPDATE\<rparr>))\<rparr>)])"
  by (simp add: createAndUpdate_hot[OF assms] cacheWrites_permissionAction
        storageWrites_permissionAction cacheWrites_forceWrite storageWrites_forceWrite)

text \<open>Witness for C1: the write of version 5 to \<open>hot/x\<close>, all checks passing.\<close>

theorem hot_path_write_has_version_zero_witness:
  "cacheWrites (snd (createAndUpdate exampleSocket hotWrite exampleHandler))
      = [(''hot/x'', \<lparr>rec_v = 0, rec_d = Some (JObject [(''v'', JNumber 1)])\<rparr>)]
   \<and> storageWrites (snd (createAndUpdate exampleSocket hotWrite exampleHandler))
      = [(''hot/x'', \<lparr>rec_v = 0, rec_d = Some (JObject [(''v'', JNumber 1)])\<rparr>)]"
proof -
  have p: "path hotWrite = None" by (simp add: hotWrite_def recordMessage_def)
  have h: "\<exists>p \<in> set (storageHotPathPrefixes (config exampleHandler)).
             indexOf (name hotWrite) p \<noteq> - 1"
    by (simp add: exampleHandler_def hotWrite_def recordMessage_def indexOf_def)
  have c: "canPerformAction (services exampleHandler) (user exampleSocket)
             (hotWrite\<lparr>action := CREATE\<rparr>) (authData exampleSocket) exampleSocket = (None, True)
         \<and> canPerformAction (services exampleHandler) (user exampleSocket)
             (hotWrite\<lparr>action := UPDATE\<rparr>) (authData exampleSocket) exampleSocket = (None, True)"
    by (simp add: example_defs)
  have v: "parsedData (parseData (services exampleHandler) (hotWrite\<lparr>action := UPDATE\<rparr>))
            = Some (JObject [(''v'', JNumber 1)])" "name hotWrite = ''hot/x''"
    by (simp_all add: example_defs hotWrite_def recordMessage_def)
  note th = hot_path_write_has_version_zero[OF p h, of exampleSocket,
      THEN conjunct2, THEN mp, OF c]
  from th show ?thesis by (simp only: v)
qed

text \<open>Counterexample to C1 as stated: the message supplies version 5, and the one record
  written to the cache and the one written to storage both have version 0.\<close>

theorem hot_path_write_ignores_supplied_version:
  "version hotWrite = Some 5
   \<and> map (rec_v \<circ> snd) (cacheWrites (snd (createAndUpdate exampleSocket hotWrite exampleHandler)))
       = [0]
   \<and> map (rec_v \<circ> snd) (storageWrites (snd (createAndUpdate exampleSocket hotWrite exampleHandler)))
       = [0]"
  by (simp add: method_defs example_defs hotWrite_def cacheWrites_def storageWrites_def)

text \<open>Claim C2 fails on the code. With \<open>hot/\<close> as the only hot-path prefix, the name
  \<open>cold/x\<close> contains no hot-path prefix, and a patch of it is answered with
  INVALID_PATCH_ON_HOTPATH: no permission check is made and nothing reaches a transition.\<close>

theorem patch_off_hot_path_rejected:
  "storageHotPathPrefixes (config exampleHandler) = [''hot/'']
   \<and> indexOf (name coldPatch) ''hot/'' = - 1
   \<and> path coldPatch = Some ''v''
   \<and> handle exampleSocket coldPatch exampleHandler
       = createAndUpdate exampleSocket coldPatch exampleHandler
   \<and> createAndUpdate exampleSocket coldPatch exampleHandler =
       (exampleHandler,
        [SendMessage exampleSocket
           ((recordMessage INVALID_PATCH_ON_HOTPATH ''cold/x'')\<lparr>originalAction := Some PATCH\<rparr>)
           False])"
  by (simp add: method_defs example_defs coldPatch_def)

text \<open>Claim C3 fails on the code. \<open>hot/x\<close> is excluded from storage and is also on the
  hot path; the force-write hands it to \<open>storage.set\<close> all the same.\<close>

theorem hot_path_write_ignores_exclusion:
  "isExcluded (storageExclusionPrefixes (config exampleHandler)) (name hotWrite)
   \<and> storageWrites (snd (handle exampleSocket hotWrite exampleHandler)) =
       [(''hot/x'', \<lparr>rec_v = 0, rec_d = Some (JObject [(''v'', JNumber 1)])\<rparr>)]
   \<and> storageWrites (snd (createAndUpdate exampleSocket hotWrite exampleHandler)) =
       [(''hot/x'', \<lparr>rec_v = 0, rec_d = Some (JObject [(''v'', JNumber 1)])\<rparr>)]"
  by (simp add: method_defs example_defs hotWrite_def storageWrites_def)

text \<open>Claim C4 fails on the code. When the record request reports RECORD_LOAD_ERROR,
  \<open>snapshot\<close> and \<open>head\<close> send it to the socket with the original action; \<open>createOrRead\<close>,
  whose error callback is empty, sends nothing and does nothing else.\<close>

theorem createOrRead_drops_load_error:
  "handle exampleSocket (recordMessage READ ''a/1'') failingHandler =
      (failingHandler,
       [SendMessage exampleSocket
          ((recordMessage RECORD_LOAD_ERROR ''a/1'')\<lparr>originalAction := Some READ\<rparr>) False])
   \<and> handle exampleSocket (recordMessage HEAD ''a/1'') failingHandler =
      (failingHandler,
       [SendMessage exampleSocket
          ((recordMessage RECORD_LOAD_ERROR ''a/1'')\<lparr>originalAction := Some HEAD\<rparr>) False])
   \<and> handle exampleSocket (recordMessage SUBSCRIBECREATEANDREAD ''a/1'') failingHandler =
      (failingHandler, [])
   \<and> createOrRead exampleSocket (recordMessage SUBSCRIBECREATEANDREAD ''a/1'') failingHandler =
      (failingHandler, [])"
  by (simp add: method_defs example_defs failingHandler_def)

subsection \<open>The stability gate\<close>

lemma inherited_constructor: "inherited ''constructor'' = Some (Some 1)"
  by (simp add: inherited_def objectPrototype_def)

lemma inherited_a1: "inherited ''a/1'' = None"
  by (simp add: inherited_def objectPrototype_def)

text \<open>The two methods where the lookup finds what the table holds: for every record
  name under which the table inherits no value, or one of length 0 (every name but
  \<open>constructor\<close>, \<open>hasOwnProperty\<close>, \<open>isPrototypeOf\<close>, \<open>propertyIsEnumerable\<close>,
  \<open>__defineGetter__\<close>, \<open>__defineSetter__\<close>, \<open>__lookupGetter__\<close>, \<open>__lookupSetter__\<close> and
  \<open>__proto__\<close>), and for every callback: \<open>runWhenRecordStable\<close> installs an empty queue
  and invokes the callback when the queue of the name is absent or empty, and otherwise
  appends the callback and invokes nothing; \<open>removeRecordRequest\<close> changes nothing when
  the queue is absent, deletes the entry when the queue is empty, and otherwise removes
  the head of the queue and invokes exactly that callback, with the record name. Neither
  raises.\<close>

theorem stability_gate_operations:
  assumes "inherited n = None \<or> inherited n = Some (Some 0)"
  shows
  "(recordRequestsInProgress this n = None \<or> recordRequestsInProgress this n = Some [] \<longrightarrow>
      runWhenRecordStable n cb this =
        Inr (this\<lparr>recordRequestsInProgress := (recordRequestsInProgress this)(n \<mapsto> [])\<rparr>,
             [(cb, n)]))
   \<and> (\<forall>c q. recordRequestsInProgress this n = Some (c # q) \<longrightarrow>
      runWhenRecordStable n cb this =
        Inr (this\<lparr>recordRequestsInProgress :=
                     (recordRequestsInProgress this)(n \<mapsto> c # q @ [cb])\<rparr>,
             []))
   \<and> (recordRequestsInProgress this n = None \<longrightarrow> removeRecordRequest n this = Inr (this, []))
   \<and> (recordRequestsInProgress this n = Some [] \<longrightarrow>
      removeRecordRequest n this =
        Inr (this\<lparr>recordRequestsInProgress := (recordRequestsInProgress this)(n := None)\<rparr>,
             []))
   \<and> (\<forall>c q. recordRequestsInProgress this n = Some (c # q) \<longrightarrow>
      removeRecordRequest n this =
        Inr (this\<lparr>recordRequestsInProgress := (recordRequestsInProgress this)(n \<mapsto> q)\<rparr>,
             [(c, n)]))"
  using assms
  by (auto simp: runWhenRecordStable_def removeRecordRequest_def getProperty_def Let_def
        fun_upd_idem)

text \<open>Every case, for the name \<open>a/1\<close>, on the idle handler and on the one
  with callback 10 waiting.\<close>

theorem stability_gate_operations_witness:
  "runWhenRecordStable ''a/1'' 7 exampleHandler
     = Inr (exampleHandler\<lparr>recordRequestsInProgress := [''a/1'' \<mapsto> []]\<rparr>, [(7, ''a/1'')])
   \<and> runWhenRecordStable ''a/1'' 7 busyHandler
     = Inr (busyHandler\<lparr>recordRequestsInProgress :=
                          (recordRequestsInProgress busyHandler)(''a/1'' \<mapsto> [10, 7])\<rparr>, [])
   \<and> removeRecordRequest ''a/1'' exampleHandler = Inr (exampleHandler, [])
   \<and> removeRecordRequest ''a/1'' busyHandler
     = Inr (busyHandler\<lparr>recordRequestsInProgress :=
                          (recordRequestsInProgress busyHandler)(''a/1'' \<mapsto> [])\<rparr>,
            [(10, ''a/1'')])
   \<and> removeRecordRequest ''a/1''
        (busyHandler\<lparr>recordRequestsInProgress :=
                       (recordRequestsInProgress busyHandler)(''a/1'' \<mapsto> [])\<rparr>)
     = Inr (busyHandler\<lparr>recordRequestsInProgress :=
                          (recordRequestsInProgress busyHandler)(''a/1'' := None)\<rparr>, [])"
proof -
  have i: "inherited ''a/1'' = None \<or> inherited ''a/1'' = Some (Some 0)"
    by (simp add: inherited_a1)
  have e: "recordRequestsInProgress exampleHandler ''a/1'' = None"
    by (simp add: exampleHandler_def)
  have b: "recordRequestsInProgress busyHandler ''a/1'' = Some [10]"
    by (simp add: busyHandler_def)
  let ?h = "busyHandler\<lparr>recordRequestsInProgress :=
                          (recordRequestsInProgress busyHandler)(''a/1'' \<mapsto> [])\<rparr>"
  have h: "recordRequestsInProgress ?h ''a/1'' = Some []"
    by simp
  note t1 = stability_gate_operations[OF i, of exampleHandler 7]
  note t2 = stability_gate_operations[OF i, of busyHandler 7]
  note t3 = stability_gate_operations[OF i, of ?h 7]
  have "runWhenRecordStable ''a/1'' 7 exampleHandler
     = Inr (exampleHandler\<lparr>recordRequestsInProgress :=
                             (recordRequestsInProgress exampleHandler)(''a/1'' \<mapsto> [])\<rparr>,
            [(7, ''a/1'')])"
    by (rule t1[THEN conjunct1, THEN mp, OF disjI1, OF e])
  then have 1: "runWhenRecordStable ''a/1'' 7 exampleHandler
     = Inr (exampleHandler\<lparr>recordRequestsInProgress := [''a/1'' \<mapsto> []]\<rparr>, [(7, ''a/1'')])"
    by (simp add: exampleHandler_def)
  have "runWhenRecordStable ''a/1'' 7 busyHandler
     = Inr (busyHandler\<lparr>recordRequestsInProgress :=
                          (recordRequestsInProgress busyHandler)(''a/1'' \<mapsto> 10 # [] @ [7])\<rparr>, [])"
    by (rule t2[THEN conjunct2, THEN conjunct1, THEN spec, THEN spec, THEN mp, OF b])
  then have 2: "runWhenRecordStable ''a/1'' 7 busyHandler
     = Inr (busyHandler\<lparr>recordRequestsInProgress :=
                          (recordRequestsInProgress busyHandler)(''a/1'' \<mapsto> [10, 7])\<rparr>, [])"
    by simp
  have 3: "removeRecordRequest ''a/1'' exampleHandler = Inr (exampleHandler, [])"
    by (rule t1[THEN conjunct2, THEN conjunct2, THEN conjunct1, THEN mp, OF e])
  have 4: "removeRecordRequest ''a/1'' busyHandler
     = Inr (busyHandler\<lparr>recordRequestsInProgress :=
                          (recordRequestsInProgress busyHandler)(''a/1'' \<mapsto> [])\<rparr>,
            [(10, ''a/1'')])"
    by (rule t2[THEN conjunct2, THEN conjunct2, THEN conjunct2, THEN conjunct2,
          THEN spec, THEN spec, THEN mp, OF b])
  have "removeRecordRequest ''a/1'' ?h
     = Inr (?h\<lparr>recordRequestsInProgress := (recordRequestsInProgress ?h)(''a/1'' := None)\<rparr>, [])"
    by (rule t3[THEN conjunct2, THEN conjunct2, THEN conjunct2, THEN conjunct1, THEN mp, OF h])
  then have 5: "removeRecordRequest ''a/1'' ?h
     = Inr (busyHandler\<lparr>recordRequestsInProgress :=
                          (recordRequestsInProgress busyHandler)(''a/1'' := None)\<rparr>, [])"
    by simp
  show ?thesis
    by (rule conjI[OF 1 conjI[OF 2 conjI[OF 3 conjI[OF 4 5]]]])
qed

text \<open>Claim C5 fails on the code. On the handler the constructor leaves, the table has
  no queue for the record name \<open>constructor\<close>, yet \<open>runWhenRecordStable\<close> neither
  installs a queue nor invokes the callback, and \<open>removeRecordRequest\<close> is not a no-op:
  the inherited value of length 1 is taken for a non-empty queue and both raise.\<close>

theorem stability_gate_raises_on_inherited_name:
  "recordRequestsInProgress exampleHandler ''constructor'' = None
   \<and> inherited ''constructor'' = Some (Some 1)
   \<and> runWhenRecordStable ''constructor'' 7 exampleHandler = Inl TypeError
   \<and> removeRecordRequest ''constructor'' exampleHandler = Inl TypeError"
  by (simp add: runWhenRecordStable_def removeRecordRequest_def getProperty_def
        inherited_constructor exampleHandler_def)

lemma gateStep_Inr_ex:
  assumes "inherited n = None \<or> inherited n = Some (Some 0)"
  shows "\<exists>r. gateStep n c this = Inr r"
proof (cases "recordRequestsInProgress this n")
  case None
  with assms show ?thesis
    by (cases c)
       (auto simp: runWhenRecordStable_def removeRecordRequest_def getProperty_def Let_def)
next
  case (Some q)
  then show ?thesis
    by (cases c; cases q)
       (simp_all add: runWhenRecordStable_def removeRecordRequest_def getProperty_def Let_def)
qed

lemma gateStep_Inr:
  assumes "inherited n = None \<or> inherited n = Some (Some 0)"
  obtains this' invoked where "gateStep n c this = Inr (this', invoked)"
proof -
  from gateStep_Inr_ex[OF assms] obtain r where "gateStep n c this = Inr r" ..
  then have "gateStep n c this = Inr (fst r, snd r)" by simp
  then show thesis by (rule that)
qed

lemma gateStep_fifo:
  "gateStep n c this = Inr (this', invoked) \<Longrightarrow>
   queueOf this n @ deferredBy (recordRequestsInProgress this n, c, Invoked (map fst invoked))
     = releasedBy (recordRequestsInProgress this n, c, Invoked (map fst invoked))
       @ queueOf this' n"
  by (cases c)
     (auto simp: runWhenRecordStable_def removeRecordRequest_def getProperty_def queueOf_def
           Let_def split: option.splits list.splits if_splits)

lemma gateStep_released:
  "gateStep n RemoveRecordRequest this = Inr (this', invoked) \<Longrightarrow>
   map fst invoked = headOfQueue (recordRequestsInProgress this n)"
  by (auto simp: removeRecordRequest_def getProperty_def
        split: option.splits list.splits if_splits)

lemma gateStep_mset:
  "gateStep n c this = Inr (this', invoked) \<Longrightarrow>
   mset (map fst invoked) + mset (queueOf this' n) = mset (queueOf this n) + mset (handedIn c)"
  by (cases c)
     (auto simp: runWhenRecordStable_def removeRecordRequest_def getProperty_def queueOf_def
           Let_def split: option.splits list.splits if_splits)

lemma gateRun_Cons:
  assumes "inherited n = None \<or> inherited n = Some (Some 0)"
    and "gateRun n (c # cs) this = (this', log)"
  obtains this1 invoked log' where
    "gateStep n c this = Inr (this1, invoked)"
    "gateRun n cs this1 = (this', log')"
    "log = (recordRequestsInProgress this n, c, Invoked (map fst invoked)) # log'"
proof -
  from assms(1) obtain this1 invoked where st: "gateStep n c this = Inr (this1, invoked)"
    by (rule gateStep_Inr)
  obtain this2 log' where rn: "gateRun n cs this1 = (this2, log')"
    by (cases "gateRun n cs this1")
  from assms(2) st rn
  have "this' = this2"
    and "log = (recordRequestsInProgress this n, c, Invoked (map fst invoked)) # log'"
    by simp_all
  with st rn that show thesis by simp
qed

lemma gateRun_fifo:
  assumes inh: "inherited n = None \<or> inherited n = Some (Some 0)"
  shows "gateRun n cs this = (this', log) \<Longrightarrow>
   queueOf this n @ concat (map deferredBy log) = concat (map releasedBy log) @ queueOf this' n"
proof (induction cs arbitrary: this log)
  case Nil
  then show ?case by simp
next
  case (Cons c cs)
  from inh Cons.prems obtain this1 invoked log' where
    st: "gateStep n c this = Inr (this1, invoked)" and
    rn: "gateRun n cs this1 = (this', log')" and
    l: "log = (recordRequestsInProgress this n, c, Invoked (map fst invoked)) # log'"
    by (rule gateRun_Cons)
  let ?e = "(recordRequestsInProgress this n, c, Invoked (map fst invoked))"
  have "queueOf this n @ concat (map deferredBy log)
        = (queueOf this n @ deferredBy ?e) @ concat (map deferredBy log')"
    by (simp add: l)
  also have "\<dots> = (releasedBy ?e @ queueOf this1 n) @ concat (map deferredBy log')"
    by (simp only: gateStep_fifo[OF st])
  also have "\<dots> = releasedBy ?e @ (concat (map releasedBy log') @ queueOf this' n)"
    by (simp add: Cons.IH[OF rn])
  also have "\<dots> = concat (map releasedBy log) @ queueOf this' n"
    by (simp add: l)
  finally show ?case .
qed

lemma gateRun_released:
  assumes inh: "inherited n = None \<or> inherited n = Some (Some 0)"
  shows "gateRun n cs this = (this', log) \<Longrightarrow>
   \<forall>(q, c, outcome) \<in> set log.
      c = RemoveRecordRequest \<longrightarrow> outcome = Invoked (headOfQueue q)"
proof (induction cs arbitrary: this log)
  case Nil
  then show ?case by simp
next
  case (Cons c cs)
  from inh Cons.prems obtain this1 invoked log' where
    st: "gateStep n c this = Inr (this1, invoked)" and
    rn: "gateRun n cs this1 = (this', log')" and
    l: "log = (recordRequestsInProgress this n, c, Invoked (map fst invoked)) # log'"
    by (rule gateRun_Cons)
  have "c = RemoveRecordRequest \<longrightarrow>
          map fst invoked = headOfQueue (recordRequestsInProgress this n)"
    using st gateStep_released by blast
  with Cons.IH[OF rn] show ?case by (simp add: l)
qed

lemma gateRun_mset:
  assumes inh: "inherited n = None \<or> inherited n = Some (Some 0)"
  shows "gateRun n cs this = (this', log) \<Longrightarrow>
   mset (concat (map invokedBy log)) + mset (queueOf this' n)
     = mset (queueOf this n) + mset (concat (map handedIn cs))"
proof (induction cs arbitrary: this log)
  case Nil
  then show ?case by simp
next
  case (Cons c cs)
  from inh Cons.prems obtain this1 invoked log' where
    st: "gateStep n c this = Inr (this1, invoked)" and
    rn: "gateRun n cs this1 = (this', log')" and
    l: "log = (recordRequestsInProgress this n, c, Invoked (map fst invoked)) # log'"
    by (rule gateRun_Cons)
  have "mset (concat (map invokedBy log)) + mset (queueOf this' n)
        = mset (map fst invoked)
          + (mset (concat (map invokedBy log')) + mset (queueOf this' n))"
    by (simp add: l)
  also have "\<dots> = mset (map fst invoked)
                   + (mset (queueOf this1 n) + mset (concat (map handedIn cs)))"
    by (simp only: Cons.IH[OF rn])
  also have "\<dots> = (mset (map fst invoked) + mset (queueOf this1 n))
                   + mset (concat (map handedIn cs))"
    by (simp only: add.assoc)
  also have "\<dots> = (mset (queueOf this n) + mset (handedIn c))
                   + mset (concat (map handedIn cs))"
    by (simp only: gateStep_mset[OF st])
  also have "\<dots> = mset (queueOf this n) + mset (concat (map handedIn (c # cs)))"
    by simp
  finally show ?case .
qed

text \<open>Starting from an absent or empty queue the two methods never queue anything: the
  queue only grows in the branch of \<open>runWhenRecordStable\<close> that finds it non-empty.\<close>

lemma gateRun_idle:
  assumes inh: "inherited n = None \<or> inherited n = Some (Some 0)"
  shows "queueOf this n = [] \<Longrightarrow> gateRun n cs this = (this', log) \<Longrightarrow>
   concat (map deferredBy log) = [] \<and> queueOf this' n = []"
proof (induction cs arbitrary: this log)
  case Nil
  then show ?case by simp
next
  case (Cons c cs)
  from inh Cons.prems(2) obtain this1 invoked log' where
    st: "gateStep n c this = Inr (this1, invoked)" and
    rn: "gateRun n cs this1 = (this', log')" and
    l: "log = (recordRequestsInProgress this n, c, Invoked (map fst invoked)) # log'"
    by (rule gateRun_Cons)
  from st Cons.prems(1)
  have s: "queueOf this1 n = []
           \<and> deferredBy (recordRequestsInProgress this n, c, Invoked (map fst invoked)) = []"
    by (cases c)
       (auto simp: runWhenRecordStable_def removeRecordRequest_def getProperty_def queueOf_def
             Let_def split: option.splits list.splits if_splits)
  with Cons.IH[OF _ rn] show ?case by (simp add: l)
qed

lemma distinct_of_mset_le:
  assumes "mset xs \<subseteq># mset ys" and "distinct ys"
  shows "distinct xs"
proof -
  have "count (mset xs) a = (if a \<in> set xs then 1 else 0)" for a
  proof (cases "a \<in> set xs")
    case True
    have "count (mset xs) a \<le> count (mset ys) a"
      using assms(1) by (rule mset_subset_eq_count)
    also have "\<dots> \<le> 1" using assms(2) by (simp add: distinct_count_atmost_1)
    finally have le: "count (mset xs) a \<le> 1" .
    have pos: "count (mset xs) a \<noteq> 0" using True by simp
    have "count (mset xs) a = 1" using le pos by linarith
    then show ?thesis using True by simp
  next
    case False
    then show ?thesis by simp
  qed
  then show ?thesis by (simp only: distinct_count_atmost_1) simp
qed

text \<open>Sequences of calls where the lookup finds what the table holds: for every record
  name under which the table inherits no value, or one of length 0, and for any sequence
  of \<open>runWhenRecordStable\<close> and \<open>removeRecordRequest\<close> calls on that name, from any
  handler,
  \<^item> the callbacks already queued followed by the callbacks the calls queued are the
    callbacks released by \<open>removeRecordRequest\<close>, in that order, followed by what is left
    in the queue (release is in enqueue order);
  \<^item> every \<open>removeRecordRequest\<close> call invokes the head of the queue it finds when that
    queue is non-empty, and nothing otherwise (one release per such call);
  \<^item> the callbacks invoked and the callbacks left in the queue are together the callbacks
    queued at the start and the callbacks handed in, counted with multiplicity, so that
    when those are pairwise different no callback is invoked twice.\<close>

theorem stability_gate_fifo:
  assumes "inherited n = None \<or> inherited n = Some (Some 0)"
    and "gateRun n cs this = (this', log)"
  shows "queueOf this n @ concat (map deferredBy log)
           = concat (map releasedBy log) @ queueOf this' n
    \<and> (\<forall>(q, c, outcome) \<in> set log.
          c = RemoveRecordRequest \<longrightarrow> outcome = Invoked (headOfQueue q))
    \<and> mset (concat (map invokedBy log)) + mset (queueOf this' n)
           = mset (queueOf this n) + mset (concat (map handedIn cs))
    \<and> (distinct (queueOf this n @ concat (map handedIn cs))
         \<longrightarrow> distinct (concat (map invokedBy log)))"
proof -
  have f: "queueOf this n @ concat (map deferredBy log)
             = concat (map releasedBy log) @ queueOf this' n"
    using assms by (rule gateRun_fifo)
  have r: "\<forall>(q, c, outcome) \<in> set log.
             c = RemoveRecordRequest \<longrightarrow> outcome = Invoked (headOfQueue q)"
    using assms by (rule gateRun_released)
  have m: "mset (concat (map invokedBy log)) + mset (queueOf this' n)
           = mset (queueOf this n) + mset (concat (map handedIn cs))"
    using assms by (rule gateRun_mset)
  have "mset (concat (map invokedBy log)) \<subseteq># mset (queueOf this n @ concat (map handedIn cs))"
    using m by (metis mset_append mset_subset_eq_add_left)
  then have d: "distinct (queueOf this n @ concat (map handedIn cs))
                  \<longrightarrow> distinct (concat (map invokedBy log))"
    using distinct_of_mset_le by blast
  show ?thesis
    by (rule conjI[OF f conjI[OF r conjI[OF m d]]])
qed

text \<open>On \<open>a/1\<close>, with callback 10 waiting, callbacks 1 and 2 are queued
  behind it, five \<open>removeRecordRequest\<close> calls release 10, 1, 2 and then find nothing, and
  callback 3 runs at once.\<close>

theorem stability_gate_fifo_witness:
  "concat (map deferredBy (snd (gateRun ''a/1'' exampleGateCalls busyHandler))) = [1, 2]
   \<and> concat (map releasedBy (snd (gateRun ''a/1'' exampleGateCalls busyHandler))) = [10, 1, 2]
   \<and> queueOf (fst (gateRun ''a/1'' exampleGateCalls busyHandler)) ''a/1'' = []
   \<and> distinct (concat (map invokedBy (snd (gateRun ''a/1'' exampleGateCalls busyHandler))))"
proof -
  let ?run = "gateRun ''a/1'' exampleGateCalls busyHandler"
  have i: "inherited ''a/1'' = None \<or> inherited ''a/1'' = Some (Some 0)"
    by (simp add: inherited_a1)
  have run: "?run = (fst ?run, snd ?run)"
    by simp
  have d: "concat (map deferredBy (snd ?run)) = [1, 2]"
    by (simp add: exampleGateCalls_def busyHandler_def example_defs gate_defs getProperty_def
          inherited_a1 Let_def)
  have q: "queueOf busyHandler ''a/1'' = [10]"
    by (simp add: busyHandler_def queueOf_def)
  have h: "distinct (queueOf busyHandler ''a/1'' @ concat (map handedIn exampleGateCalls))"
    by (simp add: q exampleGateCalls_def)
  note th = stability_gate_fifo[OF i run]
  have 4: "distinct (concat (map invokedBy (snd ?run)))"
    by (rule th[THEN conjunct2, THEN conjunct2, THEN conjunct2, THEN mp, OF h])
  have "queueOf busyHandler ''a/1'' @ concat (map deferredBy (snd ?run))
      = concat (map releasedBy (snd ?run)) @ queueOf (fst ?run) ''a/1''"
    by (rule th[THEN conjunct1])
  then have e: "concat (map releasedBy (snd ?run)) @ queueOf (fst ?run) ''a/1'' = [10, 1, 2]"
    by (simp add: d q)
  have 3: "queueOf (fst ?run) ''a/1'' = []"
    by (simp add: exampleGateCalls_def busyHandler_def example_defs gate_defs getProperty_def
          inherited_a1 Let_def)
  from e 3 have 2: "concat (map releasedBy (snd ?run)) = [10, 1, 2]"
    by simp
  show ?thesis
    by (rule conjI[OF d conjI[OF 2 conjI[OF 3 4]]])
qed


subsection \<open>The table of transitions\<close>

lemma update_existing:
  "transitions this (name m) = Some t \<Longrightarrow>
   transitions (fst (update sock m upsert this)) = transitions this
   \<and> (\<forall>n t'. NewRecordTransition n t' \<notin> set (snd (update sock m upsert this)))"
  by (simp add: update_def broadcastUpdate_def getProperty_def Let_def)

lemma update_creates:
  "NewRecordTransition n t \<in> set (snd (update sock m upsert this)) \<Longrightarrow>
   n = name m \<and> transitions this n = None
   \<and> transitions (fst (update sock m upsert this)) = (transitions this)(n \<mapsto> t)"
  by (auto simp: update_def broadcastUpdate_def getProperty_def Let_def
        split: if_splits option.splits)

lemma update_absent:
  "transitions this (name m) = None \<Longrightarrow> inherited (name m) = None \<Longrightarrow> \<not> isRemote sock \<Longrightarrow>
   update sock m upsert this =
     (this\<lparr>transitions := (transitions this)(name m \<mapsto> transitionsCreated this),
           transitionsCreated := Suc (transitionsCreated this)\<rparr>,
      [NewRecordTransition (name m) (transitionsCreated this),
       TransitionAdd (transitionsCreated this) sock
         (m\<lparr>action := (if path m \<noteq> None then PATCH else UPDATE)\<rparr>) (Some upsert)])"
  by (simp add: update_def getProperty_def Let_def)

text \<open>On a name whose table entry is only inherited, the three methods raise and change
  nothing.\<close>

lemma update_inherited:
  "transitions this (name m) = None \<Longrightarrow> inherited (name m) \<noteq> None \<Longrightarrow> \<not> isRemote sock \<Longrightarrow>
   update sock m upsert this = (this, [Throw TypeError])"
  by (auto simp: update_def getProperty_def Let_def)

lemma delete_inherited:
  "transitions this (name m) = None \<Longrightarrow> inherited (name m) \<noteq> None \<Longrightarrow>
   delete sock m this = (this, [Throw TypeError])
   \<and> remoteDelete sock m this = (this, [Throw TypeError])"
  by (auto simp: delete_def remoteDelete_def getProperty_def Let_def)

lemma delete_table:
  "transitions (fst (delete sock m this)) = (transitions this)(name m := None)"
  by (auto simp: delete_def recordDeletion_def onDeleted_def getProperty_def Let_def split_def
        fun_upd_idem split: option.splits)

lemma remoteDelete_table:
  "transitions (fst (remoteDelete sock m this)) = (transitions this)(name m := None)"
  by (auto simp: remoteDelete_def onDeleted_def getProperty_def Let_def split_def
        fun_upd_idem split: option.splits)

lemma delete_destroys:
  "transitions this (name m) = Some t \<Longrightarrow>
   \<exists>rest. snd (delete sock m this) = TransitionDestroy t # NewRecordDeletion sock m # rest"
  by (simp add: delete_def recordDeletion_def getProperty_def Let_def split_def)

lemma remoteDelete_destroys:
  "transitions this (name m) = Some t \<Longrightarrow>
   snd (remoteDelete sock m this) =
     TransitionDestroy t
       # snd (onDeleted (name m) m sock
                (this\<lparr>transitions := (transitions this)(name m := None)\<rparr>))"
  by (simp add: remoteDelete_def getProperty_def Let_def split_def)

text \<open>How the calls on the handler touch the table.\<close>

lemma tableStep_quiet:
  "filter tableEffect effs = [] \<Longrightarrow> tableStep this (this, effs)"
  by (simp add: tableStep_def)

lemma tableStep_permissionAction:
  assumes "tableStep this (k this)"
  shows "tableStep this (permissionAction a m orig sock k this)"
proof (rule permission_cases[of this "user sock" "m\<lparr>action := a\<rparr>" "authData sock" sock])
  assume "canPerformAction (services this) (user sock) (m\<lparr>action := a\<rparr>) (authData sock) sock = (None, True)"
  then show ?thesis using assms by (simp add: permissionAction_allowed tableStep_def)
next
  assume "canPerformAction (services this) (user sock) (m\<lparr>action := a\<rparr>) (authData sock) sock = (None, False)"
  then show ?thesis by (simp add: permissionAction_denied tableStep_def)
next
  fix e b
  assume "canPerformAction (services this) (user sock) (m\<lparr>action := a\<rparr>) (authData sock) sock = (Some e, b)"
  then show ?thesis by (simp add: permissionAction_error tableStep_def)
qed

lemma tableStep_forceWrite: "tableStep this (forceWrite n m sock this)"
  by (simp add: forceWrite_def forceWrite_storageCallback_def forceWrite_cacheCallback_def
        handleForceWriteAcknowledgement_def broadcastUpdate_def tableStep_def Let_def split_def)

lemma tableStep_update: "tableStep this (update sock m upsert this)"
  by (auto simp: update_def broadcastUpdate_def getProperty_def tableStep_def Let_def
        split: option.splits)

lemma tableStep_createAndUpdate: "tableStep this (createAndUpdate sock m this)"
  unfolding createAndUpdate_def Let_def
  by (auto split: option.splits hotPathBranch.splits property.splits
        intro!: tableStep_permissionAction tableStep_forceWrite tableStep_update tableStep_quiet)

lemma tableStep_readAndSubscribe: "tableStep this (readAndSubscribe m r sock this)"
  unfolding readAndSubscribe_def
  by (rule tableStep_permissionAction) (simp add: tableStep_def sendRecord_def)

lemma tableStep_create: "tableStep this (create m sock None this)"
proof -
  have "tableStep this (readAndSubscribe m r sock this)" for r
    by (rule tableStep_readAndSubscribe)
  then show ?thesis
    by (auto simp: create_def create_cacheCallback_def create_storageCallback_def tableStep_def
          Let_def split_def split: option.splits)
qed

lemma tableStep_createOrRead: "tableStep this (createOrRead sock m this)"
  unfolding createOrRead_def recordRequest_def
  by (auto split: requestResult.splits option.splits
        intro!: tableStep_permissionAction tableStep_create tableStep_readAndSubscribe tableStep_quiet)

lemma tableStep_snapshot: "tableStep this (snapshot sock m this)"
  by (auto simp: snapshot_def recordRequest_def sendRecord_def tableStep_def
        split: requestResult.splits option.splits)

lemma tableStep_head: "tableStep this (head sock m this)"
  by (auto simp: head_def recordRequest_def tableStep_def split: requestResult.splits)

lemma head_quiet:
  "fst (head sock m this) = this \<and> filter tableEffect (snd (head sock m this)) = []"
  by (auto simp: head_def recordRequest_def split: requestResult.splits)

lemma tableStep_subscribeAndHead: "tableStep this (subscribeAndHead sock m this)"
  by (simp add: subscribeAndHead_def tableStep_def split_def Let_def head_quiet)

lemma filter_tableEffect_onDeleted:
  "filter tableEffect (snd (onDeleted n m sock this)) = [] \<and> fst (onDeleted n m sock this) = this"
  by (simp add: onDeleted_def broadcastUpdate_def filter_empty_conv)

lemma tableStep_delete: "tableStep this (delete sock m this)"
  using filter_tableEffect_onDeleted
  by (auto simp: delete_def recordDeletion_def getProperty_def tableStep_def Let_def split_def
        split: option.splits)

lemma tableStep_remoteDelete: "tableStep this (remoteDelete sock m this)"
  using filter_tableEffect_onDeleted
  by (auto simp: remoteDelete_def getProperty_def tableStep_def Let_def split_def
        split: option.splits)

lemma tableStep_handle: "tableStep this (handle sock m this)"
  unfolding handle_def Let_def
  by (auto intro!: tableStep_createOrRead tableStep_createAndUpdate tableStep_snapshot
        tableStep_head tableStep_subscribeAndHead tableStep_update tableStep_delete
        tableStep_remoteDelete tableStep_quiet)


lemma foldl_liveAfterEffect_filter:
  "foldl liveAfterEffect live effs = foldl liveAfterEffect live (filter tableEffect effs)"
proof (induction effs arbitrary: live)
  case Nil
  then show ?case by simp
next
  case (Cons e effs)
  then show ?case by (cases e) simp_all
qed

lemma map_of_filter_name:
  "map_of (filter (\<lambda>(n', t'). n' \<noteq> n) xs) = (map_of xs)(n := None)"
  by (induction xs) (auto simp: fun_eq_iff)

lemma filter_handle_eq_filter_name:
  assumes "distinct (map fst xs)" and "distinct (map snd xs)" and "map_of xs n = Some t"
  shows "filter (\<lambda>(n', t'). t' \<noteq> t) xs = filter (\<lambda>(n', t'). n' \<noteq> n) xs"
proof (rule filter_cong[OF refl])
  fix p assume p: "p \<in> set xs"
  obtain n' t' where pp: "p = (n', t')" by (cases p)
  from assms(3) have nt: "(n, t) \<in> set xs" by (rule map_of_SomeD)
  have "t' = t \<longleftrightarrow> n' = n"
  proof
    assume "t' = t"
    with p pp nt assms(2) show "n' = n"
      by (metis distinct_map inj_onD prod.inject snd_conv)
  next
    assume "n' = n"
    with p pp nt assms(1) show "t' = t"
      by (metis distinct_map inj_onD prod.inject fst_conv)
  qed
  then show "(case p of (n', t') \<Rightarrow> t' \<noteq> t) = (case p of (n', t') \<Rightarrow> n' \<noteq> n)"
    by (simp add: pp)
qed

lemma tableTracks_same:
  "tableTracks this live \<Longrightarrow> transitions this' = transitions this \<Longrightarrow>
   transitionsCreated this' = transitionsCreated this \<Longrightarrow> tableTracks this' live"
  by (simp add: tableTracks_def)

lemma tableTracks_new:
  assumes "tableTracks this live" and "transitions this n = None"
    and "transitions this' = (transitions this)(n \<mapsto> transitionsCreated this)"
    and "transitionsCreated this' = Suc (transitionsCreated this)"
  shows "tableTracks this' (live @ [(n, transitionsCreated this)])"
proof -
  from assms(1) have d1: "distinct (map fst live)" and d2: "distinct (map snd live)"
    and m: "map_of live = transitions this"
    and b: "list_all (\<lambda>(n, t). t < transitionsCreated this) live"
    by (simp_all add: tableTracks_def)
  from m assms(2) have "map_of live n = None" by simp
  then have n1: "n \<notin> fst ` set live" by (simp add: map_of_eq_None_iff)
  have n2: "transitionsCreated this \<notin> snd ` set live"
    using b by (auto simp: list_all_iff)
  have m': "map_of (live @ [(n, transitionsCreated this)])
              = (transitions this)(n \<mapsto> transitionsCreated this)"
    using \<open>map_of live n = None\<close> m by (auto simp: fun_eq_iff map_add_def split: option.splits)
  have b': "list_all (\<lambda>(n, t). t < Suc (transitionsCreated this)) live"
    using b by (auto simp: list_all_iff)
  show ?thesis
    using d1 d2 n1 n2 m' b' by (simp add: tableTracks_def assms(3,4))
qed

lemma tableTracks_removed:
  assumes "tableTracks this live"
    and "transitions this' = (transitions this)(n := None)"
    and "transitionsCreated this' = transitionsCreated this"
  shows "tableTracks this' (filter (\<lambda>(n', t'). n' \<noteq> n) live)"
proof -
  from assms(1) have d1: "distinct (map fst live)" and d2: "distinct (map snd live)"
    and m: "map_of live = transitions this"
    and b: "list_all (\<lambda>(n, t). t < transitionsCreated this) live"
    by (simp_all add: tableTracks_def)
  have "list_all (\<lambda>(n, t). t < transitionsCreated this) (filter (\<lambda>(n', t'). n' \<noteq> n) live)"
    using b by (auto simp: list_all_iff)
  then show ?thesis
    using d1 d2 m
    by (simp add: tableTracks_def assms(2,3) map_of_filter_name distinct_map_filter)
qed

lemma tableTracks_tableStep:
  assumes "tableTracks this live" and "tableStep this r"
  shows "tableTracks (fst r) (foldl liveAfterEffect live (snd r))"
proof -
  have f: "foldl liveAfterEffect live (snd r)
             = foldl liveAfterEffect live (filter tableEffect (snd r))"
    by (rule foldl_liveAfterEffect_filter)
  from assms(2) consider
      (same) "transitions (fst r) = transitions this"
        "transitionsCreated (fst r) = transitionsCreated this"
        "filter tableEffect (snd r) = []"
    | (new) n where "transitions this n = None"
        "transitions (fst r) = (transitions this)(n \<mapsto> transitionsCreated this)"
        "transitionsCreated (fst r) = Suc (transitionsCreated this)"
        "filter tableEffect (snd r) = [NewRecordTransition n (transitionsCreated this)]"
    | (destroyed) n t where "transitions this n = Some t"
        "transitions (fst r) = (transitions this)(n := None)"
        "transitionsCreated (fst r) = transitionsCreated this"
        "filter tableEffect (snd r) = [TransitionDestroy t]"
    unfolding tableStep_def by blast
  then show ?thesis
  proof cases
    case same
    with assms(1) show ?thesis by (simp add: f tableTracks_same)
  next
    case new
    with assms(1) show ?thesis by (simp add: f tableTracks_new)
  next
    case destroyed
    from assms(1) have d1: "distinct (map fst live)" and d2: "distinct (map snd live)"
      and m: "map_of live = transitions this"
      by (simp_all add: tableTracks_def)
    from m destroyed(1) have "map_of live n = Some t" by simp
    then have "filter (\<lambda>(n', t'). t' \<noteq> t) live = filter (\<lambda>(n', t'). n' \<noteq> n) live"
      by (rule filter_handle_eq_filter_name[OF d1 d2])
    with assms(1) destroyed show ?thesis by (simp add: f tableTracks_removed)
  qed
qed

lemma tableTracks_completed:
  assumes "tableTracks this live" and "(n, t) \<in> set live"
  shows "tableTracks (fst (transitionComplete n this)) (filter (\<lambda>(n', t'). t' \<noteq> t) live)"
proof -
  from assms(1) have d1: "distinct (map fst live)" and d2: "distinct (map snd live)"
    by (simp_all add: tableTracks_def)
  from d1 assms(2) have "map_of live n = Some t" by simp
  then have "filter (\<lambda>(n', t'). t' \<noteq> t) live = filter (\<lambda>(n', t'). n' \<noteq> n) live"
    by (rule filter_handle_eq_filter_name[OF d1 d2])
  with assms(1) show ?thesis by (simp add: transitionComplete_def tableTracks_removed)
qed

lemma tableTracks_handlerStep:
  assumes "tableTracks this live" and "callExpected live c"
  shows "tableTracks (fst (handlerStep c this)) (liveAfterCall live c (snd (handlerStep c this)))"
proof (cases c)
  case (Handle s m)
  with tableTracks_tableStep[OF assms(1) tableStep_handle[of this s m]] show ?thesis by simp
next
  case (Update s m upsert)
  with tableTracks_tableStep[OF assms(1) tableStep_update[of this s m upsert]] show ?thesis
    by simp
next
  case (TransitionComplete t n)
  with assms(2) have "(n, t) \<in> set live" by simp
  with assms(1) TransitionComplete show ?thesis by (simp add: tableTracks_completed)
next
  case (Answers srv)
  with assms(1) show ?thesis by (simp add: tableTracks_same)
qed

lemma tableTracks_handlerRun:
  "tableTracks this live \<Longrightarrow> callsExpected cs this live \<Longrightarrow>
   handlerRun cs this live = (this', live') \<Longrightarrow> tableTracks this' live'"
proof (induction cs arbitrary: this live)
  case Nil
  then show ?case by simp
next
  case (Cons c cs)
  let ?this1 = "fst (handlerStep c this)"
  let ?live1 = "liveAfterCall live c (snd (handlerStep c this))"
  from Cons.prems(2) have e: "callExpected live c" and es: "callsExpected cs ?this1 ?live1"
    by (simp_all add: split_def Let_def)
  from Cons.prems(3) have r: "handlerRun cs ?this1 ?live1 = (this', live')"
    by (simp add: split_def Let_def)
  from tableTracks_handlerStep[OF Cons.prems(1) e] es r show ?case by (rule Cons.IH)
qed

text \<open>Claim C7: at every instant there is at most one record transition per record name,
  and it is the entry of the table. For every sequence of handled messages, resumed
  updates, calls of \<open>transitionComplete\<close> and changes of what the collaborators answer,
  in which \<open>transitionComplete\<close> is called as the handler expects: when the table tracks
  the live transitions at the start (as it does in the handler the constructor leaves,
  with an empty table and nothing alive), it tracks them at the end, so that no two live
  transitions have the same name and the table holds exactly the live ones. The methods
  keep it so, for every record name:
  \<^item> when the table has a transition for the name, \<open>update\<close> leaves the table as it is
    and creates no transition;
  \<^item> whenever \<open>update\<close> creates a transition, the table had none for that name, and the
    new one becomes the entry;
  \<^item> \<open>transitionComplete\<close> removes the entry of its name;
  \<^item> \<open>delete\<close> and \<open>remoteDelete\<close> leave no entry for the name, and when there was one
    they destroy it first, before the deletion is started or the subscribers are told.
  Beyond the claim: a client update on a name without entry creates a transition, unless
  the table inherits a value under that name; then \<open>update\<close>, \<open>delete\<close> and
  \<open>remoteDelete\<close> raise and change nothing.\<close>

theorem transitions_table_discipline:
  "(tableTracks this live \<and> callsExpected cs this live
      \<and> handlerRun cs this live = (this', live') \<longrightarrow>
       tableTracks this' live' \<and> distinct (map fst live') \<and> map_of live' = transitions this')
   \<and> (\<forall>t. transitions this (name m) = Some t \<longrightarrow>
       transitions (fst (update sock m upsert this)) = transitions this
     \<and> (\<forall>n t'. NewRecordTransition n t' \<notin> set (snd (update sock m upsert this))))
   \<and> (\<forall>n t. NewRecordTransition n t \<in> set (snd (update sock m upsert this)) \<longrightarrow>
       n = name m \<and> transitions this n = None
     \<and> transitions (fst (update sock m upsert this)) = (transitions this)(n \<mapsto> t))
   \<and> transitions (fst (transitionComplete n this)) = (transitions this)(n := None)
   \<and> transitions (fst (delete sock m this)) = (transitions this)(name m := None)
   \<and> transitions (fst (remoteDelete sock m this)) = (transitions this)(name m := None)
   \<and> (\<forall>t. transitions this (name m) = Some t \<longrightarrow>
       (\<exists>rest. snd (delete sock m this)
                 = TransitionDestroy t # NewRecordDeletion sock m # rest)
     \<and> snd (remoteDelete sock m this) =
         TransitionDestroy t
           # snd (onDeleted (name m) m sock
                    (this\<lparr>transitions := (transitions this)(name m := None)\<rparr>)))
   \<and> (transitions this (name m) = None \<and> inherited (name m) = None \<and> \<not> isRemote sock \<longrightarrow>
       NewRecordTransition (name m) (transitionsCreated this)
         \<in> set (snd (update sock m upsert this)))
   \<and> (transitions this (name m) = None \<and> inherited (name m) \<noteq> None \<longrightarrow>
       delete sock m this = (this, [Throw TypeError])
     \<and> remoteDelete sock m this = (this, [Throw TypeError])
     \<and> (\<not> isRemote sock \<longrightarrow> update sock m upsert this = (this, [Throw TypeError])))"
proof -
  have i: "tableTracks this live \<and> callsExpected cs this live
      \<and> handlerRun cs this live = (this', live') \<longrightarrow>
       tableTracks this' live' \<and> distinct (map fst live') \<and> map_of live' = transitions this'"
  proof
    assume h: "tableTracks this live \<and> callsExpected cs this live
      \<and> handlerRun cs this live = (this', live')"
    then have "tableTracks this' live'"
      using tableTracks_handlerRun by blast
    then show "tableTracks this' live' \<and> distinct (map fst live')
        \<and> map_of live' = transitions this'"
      by (simp add: tableTracks_def)
  qed
  have a: "\<forall>t. transitions this (name m) = Some t \<longrightarrow>
       transitions (fst (update sock m upsert this)) = transitions this
     \<and> (\<forall>n t'. NewRecordTransition n t' \<notin> set (snd (update sock m upsert this)))"
    using update_existing by blast
  have b: "\<forall>n t. NewRecordTransition n t \<in> set (snd (update sock m upsert this)) \<longrightarrow>
       n = name m \<and> transitions this n = None
     \<and> transitions (fst (update sock m upsert this)) = (transitions this)(n \<mapsto> t)"
    using update_creates by blast
  have d: "transitions (fst (transitionComplete n this)) = (transitions this)(n := None)"
    by (simp add: transitionComplete_def)
  have e: "transitions (fst (delete sock m this)) = (transitions this)(name m := None)"
    by (rule delete_table)
  have f: "transitions (fst (remoteDelete sock m this)) = (transitions this)(name m := None)"
    by (rule remoteDelete_table)
  have g: "\<forall>t. transitions this (name m) = Some t \<longrightarrow>
       (\<exists>rest. snd (delete sock m this)
                 = TransitionDestroy t # NewRecordDeletion sock m # rest)
     \<and> snd (remoteDelete sock m this) =
         TransitionDestroy t
           # snd (onDeleted (name m) m sock
                    (this\<lparr>transitions := (transitions this)(name m := None)\<rparr>))"
    using delete_destroys remoteDelete_destroys by blast
  have c: "transitions this (name m) = None \<and> inherited (name m) = None \<and> \<not> isRemote sock \<longrightarrow>
       NewRecordTransition (name m) (transitionsCreated this)
         \<in> set (snd (update sock m upsert this))"
    by (simp add: update_absent)
  have k: "transitions this (name m) = None \<and> inherited (name m) \<noteq> None \<longrightarrow>
       delete sock m this = (this, [Throw TypeError])
     \<and> remoteDelete sock m this = (this, [Throw TypeError])
     \<and> (\<not> isRemote sock \<longrightarrow> update sock m upsert this = (this, [Throw TypeError]))"
    using delete_inherited update_inherited by blast
  show ?thesis
    by (rule conjI[OF i conjI[OF a conjI[OF b conjI[OF d conjI[OF e conjI[OF f
          conjI[OF g conjI[OF c k]]]]]]]])
qed

text \<open>Witness for C7: the six calls on the handler the constructor leaves end with
  transition 2 alive for \<open>a/1\<close> and in the table; an update and a delete of \<open>a/1\<close> on the
  handler that holds transition 0 for it; an update of \<open>a/1\<close> and one of \<open>constructor\<close>
  on the handler with an empty table.\<close>

theorem transitions_table_discipline_witness:
  "snd (handlerRun exampleHandlerCalls exampleHandler []) = [(''a/1'', 2)]
   \<and> transitions (fst (handlerRun exampleHandlerCalls exampleHandler [])) = [''a/1'' \<mapsto> 2]
   \<and> transitions (fst (update exampleSocket writeA True busyHandler)) ''a/1'' = Some 0
   \<and> NewRecordTransition ''a/1'' 0 \<in> set (snd (update exampleSocket writeA True exampleHandler))
   \<and> transitions (fst (update exampleSocket writeA True exampleHandler)) ''a/1'' = Some 0
   \<and> transitions (fst (delete exampleSocket deleteA busyHandler)) ''a/1'' = None
   \<and> hd (snd (delete exampleSocket deleteA busyHandler)) = TransitionDestroy 0
   \<and> hd (snd (remoteDelete exampleSocket deleteA busyHandler)) = TransitionDestroy 0
   \<and> update exampleSocket writeConstructor True exampleHandler
       = (exampleHandler, [Throw TypeError])
   \<and> delete exampleSocket deleteConstructor exampleHandler
       = (exampleHandler, [Throw TypeError])"
proof -
  let ?run = "handlerRun exampleHandlerCalls exampleHandler []"
  have nw: "name writeA = ''a/1''" by (simp add: writeA_def recordMessage_def)
  have nd: "name deleteA = ''a/1''" by (simp add: deleteA_def recordMessage_def)
  have nc: "name writeConstructor = ''constructor''" "name deleteConstructor = ''constructor''"
    by (simp_all add: writeConstructor_def deleteConstructor_def recordMessage_def)
  have tb: "transitions busyHandler = [''a/1'' \<mapsto> 0]" by (simp add: busyHandler_def)
  have te: "transitions exampleHandler = Map.empty" "transitionsCreated exampleHandler = 0"
    by (simp_all add: exampleHandler_def)
  have p: "transitions busyHandler (name writeA) = Some 0"
    by (simp add: tb nw)
  have q: "transitions exampleHandler (name writeA) = None \<and> inherited (name writeA) = None
           \<and> \<not> isRemote exampleSocket"
    by (simp add: te nw inherited_a1 exampleSocket_def)
  have r: "transitions busyHandler (name deleteA) = Some 0"
    by (simp add: tb nd)
  have cw: "transitions exampleHandler (name writeConstructor) = None
            \<and> inherited (name writeConstructor) \<noteq> None"
    by (simp add: te nc inherited_constructor)
  have cd: "transitions exampleHandler (name deleteConstructor) = None
            \<and> inherited (name deleteConstructor) \<noteq> None"
    by (simp add: te nc inherited_constructor)
  have nr: "\<not> isRemote exampleSocket" by (simp add: exampleSocket_def)
  have l: "snd ?run = [(''a/1'', 2)]"
    by (simp add: exampleHandlerCalls_def dispatch_defs getProperty_def recordDeletion_def
          inherited_a1 example_defs writeA_def deleteA_def recordMessage_def)
  have x: "callsExpected exampleHandlerCalls exampleHandler []"
    by (simp add: exampleHandlerCalls_def dispatch_defs getProperty_def recordDeletion_def
          inherited_a1 example_defs writeA_def deleteA_def recordMessage_def)
  have s: "tableTracks exampleHandler [] \<and> callsExpected exampleHandlerCalls exampleHandler []
           \<and> ?run = (fst ?run, snd ?run)"
    using x by (simp add: tableTracks_def te)
  note u0 = transitions_table_discipline[where this = exampleHandler and live = "[]"
      and cs = exampleHandlerCalls and this' = "fst ?run" and live' = "snd ?run"
      and m = writeA and sock = exampleSocket and upsert = True and n = "''a/1''"]
  note u1 = transitions_table_discipline[where this = busyHandler and live = "[]" and cs = "[]"
      and this' = busyHandler and live' = "[]" and m = writeA and sock = exampleSocket
      and upsert = True and n = "''a/1''"]
  note u3 = transitions_table_discipline[where this = busyHandler and live = "[]" and cs = "[]"
      and this' = busyHandler and live' = "[]" and m = deleteA and sock = exampleSocket
      and upsert = True and n = "''a/1''"]
  note u4 = transitions_table_discipline[where this = exampleHandler and live = "[]"
      and cs = "[]" and this' = exampleHandler and live' = "[]" and m = writeConstructor
      and sock = exampleSocket and upsert = True and n = "''a/1''"]
  note u5 = transitions_table_discipline[where this = exampleHandler and live = "[]"
      and cs = "[]" and this' = exampleHandler and live' = "[]" and m = deleteConstructor
      and sock = exampleSocket and upsert = True and n = "''a/1''"]
  note u2 = u0[THEN conjunct2]
  from u0[THEN conjunct1, THEN mp, OF s]
  have "map_of (snd ?run) = transitions (fst ?run)" by (elim conjE)
  then have 0: "transitions (fst ?run) = [''a/1'' \<mapsto> 2]"
    by (simp add: l)
  have "transitions (fst (update exampleSocket writeA True busyHandler)) = transitions busyHandler"
    by (rule u1[THEN conjunct2, THEN conjunct1, THEN spec, THEN mp, OF p, THEN conjunct1])
  then have 1: "transitions (fst (update exampleSocket writeA True busyHandler)) ''a/1'' = Some 0"
    by (simp add: tb)
  note last2 = u2[THEN conjunct2, THEN conjunct2, THEN conjunct2, THEN conjunct2,
      THEN conjunct2, THEN conjunct2]
  have "NewRecordTransition (name writeA) (transitionsCreated exampleHandler)
          \<in> set (snd (update exampleSocket writeA True exampleHandler))"
    by (rule last2[THEN conjunct1, THEN mp, OF q])
  then have 2: "NewRecordTransition ''a/1'' 0
          \<in> set (snd (update exampleSocket writeA True exampleHandler))"
    by (simp only: nw te)
  have "transitions (fst (update exampleSocket writeA True exampleHandler))
          = (transitions exampleHandler)(''a/1'' \<mapsto> 0)"
    by (rule u2[THEN conjunct2, THEN conjunct1, THEN spec, THEN spec, THEN mp, OF 2,
          THEN conjunct2, THEN conjunct2])
  then have 3: "transitions (fst (update exampleSocket writeA True exampleHandler)) ''a/1'' = Some 0"
    by simp
  note v3 = u3[THEN conjunct2]
  have "transitions (fst (delete exampleSocket deleteA busyHandler))
          = (transitions busyHandler)(name deleteA := None)"
    by (rule v3[THEN conjunct2, THEN conjunct2, THEN conjunct2, THEN conjunct1])
  then have 4: "transitions (fst (delete exampleSocket deleteA busyHandler)) ''a/1'' = None"
    by (simp add: nd)
  note dz = v3[THEN conjunct2, THEN conjunct2, THEN conjunct2, THEN conjunct2,
      THEN conjunct2, THEN conjunct1, THEN spec, THEN mp, OF r]
  from dz[THEN conjunct1]
  have 5: "hd (snd (delete exampleSocket deleteA busyHandler)) = TransitionDestroy 0"
    by (elim exE) simp
  from dz[THEN conjunct2]
  have 6: "hd (snd (remoteDelete exampleSocket deleteA busyHandler)) = TransitionDestroy 0"
    by simp
  note k4 = u4[THEN conjunct2, THEN conjunct2, THEN conjunct2, THEN conjunct2, THEN conjunct2,
      THEN conjunct2, THEN conjunct2, THEN conjunct2, THEN mp, OF cw]
  note k5 = u5[THEN conjunct2, THEN conjunct2, THEN conjunct2, THEN conjunct2, THEN conjunct2,
      THEN conjunct2, THEN conjunct2, THEN conjunct2, THEN mp, OF cd]
  have 7: "update exampleSocket writeConstructor True exampleHandler
       = (exampleHandler, [Throw TypeError])"
    by (rule k4[THEN conjunct2, THEN conjunct2, THEN mp, OF nr])
  have 8: "delete exampleSocket deleteConstructor exampleHandler
       = (exampleHandler, [Throw TypeError])"
    by (rule k5[THEN conjunct1])
  show ?thesis
    by (rule conjI[OF l conjI[OF 0 conjI[OF 1 conjI[OF 2 conjI[OF 3 conjI[OF 4 conjI[OF 5
          conjI[OF 6 conjI[OF 7 8]]]]]]]]])
qed

subsection \<open>Permission denial and evaluator errors\<close>

text \<open>Claim C8: \<open>permissionAction\<close> asks the permission handler about a copy of the message
  whose action is the action to check. When the handler denies, the socket is sent
  MESSAGE_DENIED with the original action, the record name and the correlation id of
  the message when it has one (a non-empty string, as the test in the source demands);
  when the handler reports an error, the error is logged and the socket is sent
  MESSAGE_PERMISSION_ERROR likewise. In both cases the handler is unchanged and the
  trace holds nothing else, whatever the success callback \<open>k\<close> is: \<open>k\<close> is not run.\<close>

theorem permission_denied_or_error:
  "(\<exists>effs. snd (permissionAction a m orig sock k this)
            = CanPerformAction (user sock) (m\<lparr>action := a\<rparr>) (authData sock) sock # effs)
   \<and> (canPerformAction (services this) (user sock) (m\<lparr>action := a\<rparr>) (authData sock) sock
         = (None, False) \<longrightarrow>
      permissionAction a m orig sock k this =
        (this, [CanPerformAction (user sock) (m\<lparr>action := a\<rparr>) (authData sock) sock,
                SendMessage sock
                  ((recordMessage MESSAGE_DENIED (name m))
                     \<lparr>correlationId :=
                        (if truthyString (correlationId m) then correlationId m else None),
                      originalAction := Some orig\<rparr>) False]))
   \<and> (\<forall>e b. canPerformAction (services this) (user sock) (m\<lparr>action := a\<rparr>) (authData sock) sock
         = (Some e, b) \<longrightarrow>
      permissionAction a m orig sock k this =
        (this, [CanPerformAction (user sock) (m\<lparr>action := a\<rparr>) (authData sock) sock,
                LoggerError MESSAGE_PERMISSION_ERROR (toString e),
                SendMessage sock
                  ((recordMessage MESSAGE_PERMISSION_ERROR (name m))
                     \<lparr>correlationId :=
                        (if truthyString (correlationId m) then correlationId m else None),
                      originalAction := Some orig\<rparr>) False]))"
  by (simp add: permissionAction_denied permissionAction_error)
     (simp add: permissionAction_def split_def Let_def)

text \<open>Witness for C8: the CREATE check of a write with correlation id \<open>c7\<close>, with the
  hot-path write as success callback, on a handler that denies and on one that fails.\<close>

theorem permission_denied_or_error_witness:
  "permissionAction CREATE taggedWrite CREATEANDUPDATE exampleSocket
     (forceWrite ''a/1'' taggedWrite exampleSocket) denyingHandler
     = (denyingHandler,
        [CanPerformAction ''alice'' (taggedWrite\<lparr>action := CREATE\<rparr>) JNull exampleSocket,
         SendMessage exampleSocket
           ((recordMessage MESSAGE_DENIED ''a/1'')
              \<lparr>correlationId := Some ''c7'', originalAction := Some CREATEANDUPDATE\<rparr>) False])
   \<and> permissionAction CREATE taggedWrite CREATEANDUPDATE exampleSocket
       (forceWrite ''a/1'' taggedWrite exampleSocket) erringHandler
     = (erringHandler,
        [CanPerformAction ''alice'' (taggedWrite\<lparr>action := CREATE\<rparr>) JNull exampleSocket,
         LoggerError MESSAGE_PERMISSION_ERROR ''Error: rule failed'',
         SendMessage exampleSocket
           ((recordMessage MESSAGE_PERMISSION_ERROR ''a/1'')
              \<lparr>correlationId := Some ''c7'', originalAction := Some CREATEANDUPDATE\<rparr>) False])"
proof -
  let ?k = "forceWrite ''a/1'' taggedWrite exampleSocket :: nat handlerMethod"
  have d: "canPerformAction (services denyingHandler) (user exampleSocket)
             (taggedWrite\<lparr>action := CREATE\<rparr>) (authData exampleSocket) exampleSocket
           = (None, False)"
    by (simp add: denyingHandler_def)
  have e: "canPerformAction (services erringHandler) (user exampleSocket)
             (taggedWrite\<lparr>action := CREATE\<rparr>) (authData exampleSocket) exampleSocket
           = (Some (Error ''rule failed''), False)"
    by (simp add: erringHandler_def)
  have s: "user exampleSocket = ''alice''" "authData exampleSocket = JNull"
    by (simp_all add: exampleSocket_def)
  have t: "name taggedWrite = ''a/1''" "correlationId taggedWrite = Some ''c7''"
    by (simp_all add: taggedWrite_def recordMessage_def)
  have c: "(if truthyString (correlationId taggedWrite) then correlationId taggedWrite else None)
            = Some ''c7''"
    by (simp add: t)
  have g: "toString (Error ''rule failed'') = ''Error: rule failed''"
    by simp
  note dn = permission_denied_or_error
      [of CREATE taggedWrite CREATEANDUPDATE exampleSocket ?k denyingHandler]
  note er = permission_denied_or_error
      [of CREATE taggedWrite CREATEANDUPDATE exampleSocket ?k erringHandler]
  have "permissionAction CREATE taggedWrite CREATEANDUPDATE exampleSocket ?k denyingHandler
     = (denyingHandler,
        [CanPerformAction (user exampleSocket) (taggedWrite\<lparr>action := CREATE\<rparr>)
           (authData exampleSocket) exampleSocket,
         SendMessage exampleSocket
           ((recordMessage MESSAGE_DENIED (name taggedWrite))
              \<lparr>correlationId :=
                 (if truthyString (correlationId taggedWrite) then correlationId taggedWrite
                  else None),
               originalAction := Some CREATEANDUPDATE\<rparr>) False])"
    by (rule dn[THEN conjunct2, THEN conjunct1, THEN mp, OF d])
  then have 1: "permissionAction CREATE taggedWrite CREATEANDUPDATE exampleSocket ?k denyingHandler
     = (denyingHandler,
        [CanPerformAction ''alice'' (taggedWrite\<lparr>action := CREATE\<rparr>) JNull exampleSocket,
         SendMessage exampleSocket
           ((recordMessage MESSAGE_DENIED ''a/1'')
              \<lparr>correlationId := Some ''c7'', originalAction := Some CREATEANDUPDATE\<rparr>) False])"
    by (simp only: s t(1) c)
  have "permissionAction CREATE taggedWrite CREATEANDUPDATE exampleSocket ?k erringHandler
     = (erringHandler,
        [CanPerformAction (user exampleSocket) (taggedWrite\<lparr>action := CREATE\<rparr>)
           (authData exampleSocket) exampleSocket,
         LoggerError MESSAGE_PERMISSION_ERROR (toString (Error ''rule failed'')),
         SendMessage exampleSocket
           ((recordMessage MESSAGE_PERMISSION_ERROR (name taggedWrite))
              \<lparr>correlationId :=
                 (if truthyString (correlationId taggedWrite) then correlationId taggedWrite
                  else None),
               originalAction := Some CREATEANDUPDATE\<rparr>) False])"
    by (rule er[THEN conjunct2, THEN conjunct2, THEN spec, THEN spec, THEN mp, OF e])
  then have 2: "permissionAction CREATE taggedWrite CREATEANDUPDATE exampleSocket ?k erringHandler
     = (erringHandler,
        [CanPerformAction ''alice'' (taggedWrite\<lparr>action := CREATE\<rparr>) JNull exampleSocket,
         LoggerError MESSAGE_PERMISSION_ERROR ''Error: rule failed'',
         SendMessage exampleSocket
           ((recordMessage MESSAGE_PERMISSION_ERROR ''a/1'')
              \<lparr>correlationId := Some ''c7'', originalAction := Some CREATEANDUPDATE\<rparr>) False])"
    by (simp only: s t(1) c g)
  from 1 2 show ?thesis by (rule conjI)
qed

subsection \<open>Head and snapshot\<close>

text \<open>Claim C9: when the record request of a HEAD completes (no load error), the socket
  is sent one HEAD_RESPONSE for the name, whose version is the version of the record
  when there is a record, and -1 when there is none.\<close>

theorem head_response_version:
  "(\<forall>rec. recordRequestResult (services this) (name m) = Loaded (Some rec) \<longrightarrow>
      head sock m this =
        (this, [SendMessage sock
                  ((recordMessage HEAD_RESPONSE (name m))\<lparr>version := Some (rec_v rec)\<rparr>)
                  False]))
   \<and> (recordRequestResult (services this) (name m) = Loaded None \<longrightarrow>
      head sock m this =
        (this, [SendMessage sock
                  ((recordMessage HEAD_RESPONSE (name m))\<lparr>version := Some (- 1)\<rparr>) False]))"
  by (simp add: head_def recordRequest_def)

text \<open>Witness for C9: a HEAD of \<open>a/1\<close> where the record is stored at version 3, and where
  it is absent.\<close>

theorem head_response_version_witness:
  "head exampleSocket (recordMessage HEAD ''a/1'') storedHandler
     = (storedHandler,
        [SendMessage exampleSocket
           ((recordMessage HEAD_RESPONSE ''a/1'')\<lparr>version := Some 3\<rparr>) False])
   \<and> head exampleSocket (recordMessage HEAD ''a/1'') exampleHandler
     = (exampleHandler,
        [SendMessage exampleSocket
           ((recordMessage HEAD_RESPONSE ''a/1'')\<lparr>version := Some (- 1)\<rparr>) False])"
proof -
  have n: "name (recordMessage HEAD ''a/1'') = ''a/1''" by (simp add: recordMessage_def)
  have a: "recordRequestResult (services storedHandler) (name (recordMessage HEAD ''a/1''))
        = Loaded (Some \<lparr>rec_v = 3, rec_d = Some (JObject [(''x'', JNumber 1)])\<rparr>)"
    by (simp add: storedHandler_def)
  have b: "recordRequestResult (services exampleHandler) (name (recordMessage HEAD ''a/1''))
        = Loaded None"
    by (simp add: example_defs)
  note th1 = head_response_version[of storedHandler "recordMessage HEAD ''a/1''" exampleSocket,
      THEN conjunct1, THEN spec, THEN mp, OF a]
  note th2 = head_response_version[of exampleHandler "recordMessage HEAD ''a/1''" exampleSocket,
      THEN conjunct2, THEN mp, OF b]
  from th1
  have 1: "head exampleSocket (recordMessage HEAD ''a/1'') storedHandler
     = (storedHandler,
        [SendMessage exampleSocket
           ((recordMessage HEAD_RESPONSE ''a/1'')\<lparr>version := Some 3\<rparr>) False])"
    by (simp add: n)
  from th2
  have 2: "head exampleSocket (recordMessage HEAD ''a/1'') exampleHandler
     = (exampleHandler,
        [SendMessage exampleSocket
           ((recordMessage HEAD_RESPONSE ''a/1'')\<lparr>version := Some (- 1)\<rparr>) False])"
    by (simp add: n)
  from 1 2 show ?thesis by (rule conjI)
qed

text \<open>Claim C10: when the record request of a READ completes with no record, the socket
  is sent one RECORD_NOT_FOUND message that carries the record name and, as original
  action, the action of the READ message.\<close>

theorem snapshot_record_not_found:
  "recordRequestResult (services this) (name m) = Loaded None \<Longrightarrow>
   snapshot sock m this =
     (this, [SendMessage sock
               ((recordMessage RECORD_NOT_FOUND (name m))\<lparr>originalAction := Some (action m)\<rparr>)
               False])"
  by (simp add: snapshot_def recordRequest_def)

text \<open>Witness for C10: a READ of \<open>a/1\<close>, which is neither in the cache nor in storage.\<close>

theorem snapshot_record_not_found_witness:
  "snapshot exampleSocket (recordMessage READ ''a/1'') exampleHandler
     = (exampleHandler,
        [SendMessage exampleSocket
           ((recordMessage RECORD_NOT_FOUND ''a/1'')\<lparr>originalAction := Some READ\<rparr>) False])"
proof -
  have b: "recordRequestResult (services exampleHandler) (name (recordMessage READ ''a/1''))
        = Loaded None"
    by (simp add: example_defs)
  from snapshot_record_not_found[OF b, of exampleSocket] show ?thesis
    by (simp add: recordMessage_def)
qed

end
